theory Spec2Isabelle
  imports
    Complex_Main
    "HOL-Library.Multiset"
    "HOL-Library.Char_ord"
    "HOL-Library.List_Lexorder"
    "HOL-Library.Product_Lexorder"
begin

section \<open>JSON values and Python errors\<close>

text \<open>
  The payloads of the weather API are whatever \<^verbatim>\<open>resp.json()\<close> returns: a JSON value.
  An object keeps its items in insertion order, as a Python dict does. Numbers are
  modelled as exact rationals: the arithmetic of the aggregates is idealised, rounding
  of binary floating point is outside this development.
\<close>

datatype json =
    JNull
  | JBool bool
  | JNum rat
  | JStr string
  | JArr "json list"
  | JObj "(string \<times> json) list"

text \<open>The exceptions that the modelled code can raise.\<close>

datatype error =
    HTTPError nat
  | JSONDecodeError
  | AttributeError
  | ValueError
  | KeyError string
  | TypeError
  | FileNotFoundError
  | Unmodelled

text \<open>Python truthiness of a decoded JSON value (\<^verbatim>\<open>if raw:\<close>, \<^verbatim>\<open>if not hourly:\<close>).\<close>

fun truthy :: "json \<Rightarrow> bool" where
  "truthy JNull = False"
| "truthy (JBool b) = b"
| "truthy (JNum x) = (x \<noteq> 0)"
| "truthy (JStr s) = (s \<noteq> [])"
| "truthy (JArr xs) = (xs \<noteq> [])"
| "truthy (JObj kvs) = (kvs \<noteq> [])"

section \<open>fetch\_weather.py: the HTTP client\<close>

text \<open>
  A response as the code and the retrying adapter read it: its status code, its body,
  \<open>None\<close> when the body is not valid JSON (\<^verbatim>\<open>resp.json()\<close> raises then), and whether it
  carries a non-empty \<^verbatim>\<open>Retry-After\<close> header. A response of the model is the last one of
  a chain of redirects, which the session follows by itself.
\<close>

record response =
  status_code :: nat
  body :: "json option"
  retry_after :: bool

text \<open>
  The endpoint is the sequence of its answers: \<open>ep n\<close> answers the request number
  \<open>n\<close>, counted from 0 over the life of the process. The state threaded through the
  client is the number of requests issued so far. Transport failures (no answer at all)
  and the sleeping between attempts are not part of the model.
\<close>

type_synonym endpoint = "nat \<Rightarrow> response"

text \<open>A session's \<^verbatim>\<open>get\<close>: from the request counter to the response and the new counter.\<close>

type_synonym getter = "nat \<Rightarrow> response \<times> nat"

text \<open>
  \<^verbatim>\<open>_build_session\<close>: \<^verbatim>\<open>Retry(total=6, status=6, status_forcelist=[429, 500, 502, 503, 504],
  raise_on_status=False)\<close> mounted on the session. \<^verbatim>\<open>Retry.is_retry\<close> asks for another
  request when the status is in the list, and also, while \<^verbatim>\<open>total\<close> is not 0, when the
  response carries a \<^verbatim>\<open>Retry-After\<close> header and its status is 413, 429 or 503
  (\<^verbatim>\<open>respect_retry_after_header\<close> is left at its default). Every retry counts \<^verbatim>\<open>total\<close>
  down; once it is 0 the response is handed back without raising, whatever its status.
  So one call of \<^verbatim>\<open>_SESSION.get\<close> issues at most 7 requests.
\<close>

definition status_forcelist :: "nat list" where
  "status_forcelist = [429, 500, 502, 503, 504]"

definition retry_after_status_codes :: "nat list" where
  "retry_after_status_codes = [413, 429, 503]"

definition retry_total :: nat where
  "retry_total = 6"

definition is_retry :: "response \<Rightarrow> bool" where
  "is_retry resp \<longleftrightarrow>
     status_code resp \<in> set status_forcelist
     \<or> (retry_after resp \<and> status_code resp \<in> set retry_after_status_codes)"

fun adapter_send :: "nat \<Rightarrow> endpoint \<Rightarrow> nat \<Rightarrow> response \<times> nat" where
  "adapter_send 0 ep n = (ep n, Suc n)"
| "adapter_send (Suc k) ep n =
     (if is_retry (ep n) then adapter_send k ep (Suc n) else (ep n, Suc n))"

definition session_get :: "endpoint \<Rightarrow> getter" where
  "session_get ep n = adapter_send retry_total ep n"


text \<open>\<^verbatim>\<open>resp.raise_for_status()\<close> raises for the statuses 400 to 599.\<close>

definition raise_for_status :: "response \<Rightarrow> error + unit" where
  "raise_for_status resp =
     (if 400 \<le> status_code resp \<and> status_code resp < 600
      then Inl (HTTPError (status_code resp)) else Inr ())"

definition resp_json :: "response \<Rightarrow> error + json" where
  "resp_json resp = (case body resp of None \<Rightarrow> Inl JSONDecodeError | Some j \<Rightarrow> Inr j)"

text \<open>
  \<^verbatim>\<open>_get_json\<close>, the loop \<^verbatim>\<open>for attempt in range(1, 8)\<close>. A 429 sleeps and continues; any
  other response goes through \<^verbatim>\<open>raise_for_status\<close>, whose \<^verbatim>\<open>HTTPError\<close> is caught and
  re-raised only when \<^verbatim>\<open>attempt >= 7\<close>. The two lines after the loop are reached when the
  seventh attempt was a 429. \<^verbatim>\<open>_SESSION.get\<close> is the parameter \<open>get\<close>.
\<close>

function get_json_loop :: "getter \<Rightarrow> nat \<Rightarrow> nat \<Rightarrow> (error + json) \<times> nat" where
  "get_json_loop get attempt n =
     (case get n of (resp, n') \<Rightarrow>
        if status_code resp = 429 then
          (if attempt < 7 then get_json_loop get (attempt + 1) n'
           else (case raise_for_status resp of
                   Inl e \<Rightarrow> (Inl e, n')
                 | Inr _ \<Rightarrow> (resp_json resp, n')))
        else (case raise_for_status resp of
                Inr _ \<Rightarrow> (resp_json resp, n')
              | Inl e \<Rightarrow>
                  if attempt \<ge> 7 then (Inl e, n')
                  else get_json_loop get (attempt + 1) n'))"
  by pat_completeness auto
termination
  by (relation "measure (\<lambda>(get, attempt, n). 7 - attempt)") auto

declare get_json_loop.simps [simp del]

definition get_json :: "endpoint \<Rightarrow> nat \<Rightarrow> (error + json) \<times> nat" where
  "get_json ep n = get_json_loop (session_get ep) 1 n"

text \<open>A status that the specification calls non-retryable: a 4xx other than 429.\<close>

definition non_retryable :: "nat \<Rightarrow> bool" where
  "non_retryable s \<longleftrightarrow> 400 \<le> s \<and> s < 500 \<and> s \<noteq> 429"

text \<open>Endpoints used as concrete inputs below.\<close>

definition ep_404_then_200 :: endpoint where
  "ep_404_then_200 i =
     (if i = 0 then \<lparr>status_code = 404, body = None, retry_after = False\<rparr>
      else \<lparr>status_code = 200, body = Some (JObj [(''hourly'', JObj [])]), retry_after = False\<rparr>)"

definition ep_always_404 :: endpoint where
  "ep_always_404 i = \<lparr>status_code = 404, body = None, retry_after = False\<rparr>"

definition ep_always_413_retry_after :: endpoint where
  "ep_always_413_retry_after i = \<lparr>status_code = 413, body = None, retry_after = True\<rparr>"


section \<open>fetch\_weather.py: names of the raw payload files\<close>


definition is_upper :: "char \<Rightarrow> bool" where
  "is_upper c \<longleftrightarrow> 65 \<le> (of_char c :: nat) \<and> (of_char c :: nat) \<le> 90"

definition lower_char :: "char \<Rightarrow> char" where
  "lower_char c = (if is_upper c then char_of ((of_char c :: nat) + 32) else c)"

definition ascii_lower :: "string \<Rightarrow> string" where
  "ascii_lower s = map lower_char s"

text \<open>
  \<^verbatim>\<open>s.replace(" ", "_")\<close>: both strings are single ASCII characters, and no other character
  has the byte of the space in its encoding.
\<close>

definition replace_space :: "string \<Rightarrow> string" where
  "replace_space s = map (\<lambda>c. if c = CHR '' '' then CHR ''_'' else c) s"

definition safe_city :: "(string \<Rightarrow> string) \<Rightarrow> string \<Rightarrow> string" where
  "safe_city str_lower city = replace_space (str_lower city)"

text \<open>\<^verbatim>\<open>os.path.join\<close> of two components (posixpath).\<close>

definition os_path_join :: "string \<Rightarrow> string \<Rightarrow> string" where
  "os_path_join a b =
     (if b \<noteq> [] \<and> hd b = CHR ''/'' then b
      else if a = [] \<or> last a = CHR ''/'' then a @ b
      else a @ ''/'' @ b)"

text \<open>Truthiness of an \<^verbatim>\<open>Optional[str]\<close>: neither \<^verbatim>\<open>None\<close> nor the empty string.\<close>

definition truthy_str :: "string option \<Rightarrow> bool" where
  "truthy_str s \<longleftrightarrow> (case s of None \<Rightarrow> False | Some x \<Rightarrow> x \<noteq> [])"

text \<open>
  \<^verbatim>\<open>save_raw_json\<close>: the path it writes the payload to and returns. The payload does not
  influence the path, and writing it cannot fail on a JSON value. \<^verbatim>\<open>os.makedirs\<close> raises
  \<^verbatim>\<open>FileNotFoundError\<close> on the empty directory name; other failures of the file system
  are not modelled.
\<close>

definition raw_file_name ::
  "(string \<Rightarrow> string) \<Rightarrow> string \<Rightarrow> string \<Rightarrow> string option \<Rightarrow> string option \<Rightarrow> string" where
  "raw_file_name str_lower city kind start end =
     (if truthy_str start \<and> truthy_str end
      then safe_city str_lower city @ ''__'' @ kind @ ''__'' @ the start @ ''__'' @ the end @ ''.json''
      else safe_city str_lower city @ ''__'' @ kind @ ''.json'')"

definition save_raw_json ::
  "(string \<Rightarrow> string) \<Rightarrow> string \<Rightarrow> string \<Rightarrow> string \<Rightarrow> string option \<Rightarrow> string option
     \<Rightarrow> error + string" where
  "save_raw_json str_lower raw_dir city kind start end =
     (if raw_dir = [] then Inl FileNotFoundError
      else Inr (os_path_join raw_dir (raw_file_name str_lower city kind start end)))"

section \<open>process\_weather.py: tables\<close>

text \<open>
  A timestamp is an instant in UTC, counted in nanoseconds from the epoch; \<open>None\<close> is
  pandas' \<^verbatim>\<open>NaT\<close>. A row of an hourly table carries its two key columns as fields and
  its other columns as cells, in column order; the cell \<open>JNull\<close> is a missing value.
  A table with rows has the columns \<^verbatim>\<open>time\<close> and \<^verbatim>\<open>city\<close>; \<^verbatim>\<open>pd.DataFrame()\<close> has no
  column and no row.
\<close>

type_synonym timestamp = int

record row =
  city :: string
  time :: "timestamp option"
  cells :: "(string \<times> json) list"

record frame =
  columns :: "string list"
  rows :: "row list"

definition empty_frame :: frame where
  "empty_frame = \<lparr>columns = [], rows = []\<rparr>"

text \<open>\<^verbatim>\<open>df.empty\<close>: one of the two axes has length 0.\<close>

definition df_empty :: "frame \<Rightarrow> bool" where
  "df_empty f \<longleftrightarrow> rows f = [] \<or> columns f = []"

definition cell :: "row \<Rightarrow> string \<Rightarrow> json" where
  "cell r c = (case map_of (cells r) c of Some v \<Rightarrow> v | None \<Rightarrow> JNull)"

definition key :: "row \<Rightarrow> string \<times> timestamp option" where
  "key r = (city r, time r)"

text \<open>\<^verbatim>\<open>d.get(k, default)\<close> on the items of a dict (its keys are distinct).\<close>

definition dict_get :: "(string \<times> json) list \<Rightarrow> string \<Rightarrow> json \<Rightarrow> json" where
  "dict_get kvs k d = (case map_of kvs k of Some v \<Rightarrow> v | None \<Rightarrow> d)"

text \<open>
  \<^verbatim>\<open>df[key] = value\<close> on the cells of one row: an existing column keeps its place, a new
  one goes last.
\<close>

fun set_column :: "string \<Rightarrow> 'a \<Rightarrow> (string \<times> 'a) list \<Rightarrow> (string \<times> 'a) list" where
  "set_column k v [] = [(k, v)]"
| "set_column k v ((k', v') # cs) =
     (if k = k' then (k, v) # cs else (k', v') # set_column k v cs)"

definition add_col :: "string \<Rightarrow> string list \<Rightarrow> string list" where
  "add_col k cols = (if k \<in> set cols then cols else cols @ [k])"

text \<open>
  \<^verbatim>\<open>pd.to_datetime(time_col, errors="coerce", utc=True)\<close> followed by
  \<^verbatim>\<open>pd.DataFrame({"time": ...})\<close>. The conversion of one entry is the parameter \<open>parse\<close>:
  with \<^verbatim>\<open>errors="coerce"\<close> an entry that does not parse becomes \<^verbatim>\<open>NaT\<close>. A scalar or null
  in the place of the array leaves the constructor with a scalar and no index, which it
  rejects; an object there is assembled by pandas from unit columns and is not modelled.
\<close>

fun to_datetime :: "(json \<Rightarrow> timestamp option) \<Rightarrow> json \<Rightarrow> error + timestamp option list" where
  "to_datetime parse (JArr ts) = Inr (map parse ts)"
| "to_datetime parse (JObj kvs) = Inl Unmodelled"
| "to_datetime parse v = Inl ValueError"

text \<open>
  The table under construction: the names of the columns set so far (\<^verbatim>\<open>time\<close> apart) and,
  per row, the timestamp and the cells.
\<close>

type_synonym prerow = "timestamp option \<times> (string \<times> json) list"

definition set_scalar :: "string \<Rightarrow> json \<Rightarrow> prerow list \<Rightarrow> prerow list" where
  "set_scalar k v rs = map (\<lambda>(t, cs). (t, set_column k v cs)) rs"

definition set_values :: "string \<Rightarrow> json list \<Rightarrow> prerow list \<Rightarrow> prerow list" where
  "set_values k vs rs = map (\<lambda>((t, cs), v). (t, set_column k v cs)) (zip rs vs)"

text \<open>
  \<^verbatim>\<open>df[key] = values\<close> of line 17. A list must have the length of the index, or pandas
  raises \<^verbatim>\<open>ValueError\<close>; except that a table without rows takes its index from a
  non-empty list (the columns it has are filled with missing values). A scalar is
  broadcast. A nested object is aligned by pandas on its labels and is not modelled.
\<close>

fun assign :: "string \<Rightarrow> json \<Rightarrow> string list \<times> prerow list \<Rightarrow> error + string list \<times> prerow list" where
  "assign k (JArr vs) (cols, rs) =
     (if rs = [] \<and> vs \<noteq> []
      then Inr (add_col k cols,
                map (\<lambda>v. (None, set_column k v (map (\<lambda>c. (c, JNull)) cols))) vs)
      else if length vs = length rs then Inr (add_col k cols, set_values k vs rs)
      else Inl ValueError)"
| "assign k (JObj kvs) (cols, rs) = Inl Unmodelled"
| "assign k v (cols, rs) = Inr (add_col k cols, set_scalar k v rs)"

text \<open>The loop \<^verbatim>\<open>for key, values in hourly.items()\<close>, skipping \<^verbatim>\<open>time\<close>.\<close>

fun assign_all :: "(string \<times> json) list \<Rightarrow> string list \<times> prerow list \<Rightarrow> error + string list \<times> prerow list" where
  "assign_all [] s = Inr s"
| "assign_all ((k, v) # kvs) s =
     (if k = ''time'' then assign_all kvs s
      else (case assign k v s of Inl e \<Rightarrow> Inl e | Inr s' \<Rightarrow> assign_all kvs s'))"

text \<open>
  \<^verbatim>\<open>df["city"] = city\<close>: the scalar replaces whatever the block held under that name, so
  the row takes the label as its field and keeps no cell of that name.
\<close>

definition with_city :: "string \<Rightarrow> prerow \<Rightarrow> row" where
  "with_city c p = \<lparr>city = c, time = fst p, cells = filter (\<lambda>kv. fst kv \<noteq> ''city'') (snd p)\<rparr>"

text \<open>
  \<^verbatim>\<open>_hourly_to_df\<close>. \<^verbatim>\<open>raw.get\<close> and \<^verbatim>\<open>hourly.get\<close> exist on a dict only: on any other
  value Python raises \<^verbatim>\<open>AttributeError\<close>.
\<close>

definition hourly_to_df :: "(json \<Rightarrow> timestamp option) \<Rightarrow> json \<Rightarrow> string \<Rightarrow> error + frame" where
  "hourly_to_df parse raw c =
     (case raw of
        JObj kvs \<Rightarrow>
          (let hourly = dict_get kvs ''hourly'' (JObj []) in
           if \<not> truthy hourly then Inr empty_frame
           else (case hourly of
                   JObj hs \<Rightarrow>
                     (case to_datetime parse (dict_get hs ''time'' (JArr [])) of
                        Inl e \<Rightarrow> Inl e
                      | Inr ts \<Rightarrow>
                          (case assign_all hs ([], map (\<lambda>t. (t, [])) ts) of
                             Inl e \<Rightarrow> Inl e
                           | Inr (cols, rs) \<Rightarrow>
                               Inr \<lparr>columns = add_col ''city'' (''time'' # cols),
                                    rows = map (with_city c) rs\<rparr>))
                 | _ \<Rightarrow> Inl AttributeError))
      | _ \<Rightarrow> Inl AttributeError)"

text \<open>
  \<^verbatim>\<open>pd.concat(dfs, ignore_index=True)\<close>: the columns are the union in order of first
  appearance, the rows follow each other, and a row gets a missing value in every column
  its own table did not have. An empty list of tables is a \<^verbatim>\<open>ValueError\<close>.
\<close>

definition data_columns :: "string list \<Rightarrow> string list" where
  "data_columns cols = filter (\<lambda>c. c \<noteq> ''time'' \<and> c \<noteq> ''city'') cols"

definition reindex :: "string list \<Rightarrow> row \<Rightarrow> row" where
  "reindex cols r = r\<lparr>cells := map (\<lambda>c. (c, cell r c)) (data_columns cols)\<rparr>"

definition union_columns :: "frame list \<Rightarrow> string list" where
  "union_columns dfs = fold add_col (concat (map columns dfs)) []"

definition pd_concat :: "frame list \<Rightarrow> error + frame" where
  "pd_concat dfs =
     (if dfs = [] then Inl ValueError
      else Inr \<lparr>columns = union_columns dfs,
                rows = map (reindex (union_columns dfs)) (concat (map rows dfs))\<rparr>)"

text \<open>
  \<^verbatim>\<open>drop_duplicates(subset=["city", "time"])\<close> with the default \<^verbatim>\<open>keep="first"\<close>: a row is
  dropped when an earlier row has its key; missing timestamps count as equal. An empty
  table is returned as it is, before the subset is looked at.
\<close>

fun first_seen :: "('a \<Rightarrow> 'k) \<Rightarrow> 'k list \<Rightarrow> 'a list \<Rightarrow> 'a list" where
  "first_seen f seen [] = []"
| "first_seen f seen (x # xs) =
     (if f x \<in> set seen then first_seen f seen xs
      else x # first_seen f (f x # seen) xs)"

definition drop_duplicates :: "frame \<Rightarrow> error + frame" where
  "drop_duplicates f =
     (if df_empty f then Inr f
      else if ''city'' \<notin> set (columns f) then Inl (KeyError ''city'')
      else if ''time'' \<notin> set (columns f) then Inl (KeyError ''time'')
      else Inr (f\<lparr>rows := first_seen key [] (rows f)\<rparr>))"

text \<open>
  \<^verbatim>\<open>sort_values\<close> puts missing timestamps last (\<^verbatim>\<open>na_position="last"\<close>): the rank of a
  timestamp orders \<^verbatim>\<open>NaT\<close> after every instant. Sorting on one column is not stable in
  pandas; \<open>sort_key\<close> is, and both give the same table when the sorted keys are
  distinct, as they are after \<^verbatim>\<open>drop_duplicates\<close> on a table with one city. Sorting on a
  list of columns is stable in pandas as well.
\<close>

definition time_rank :: "timestamp option \<Rightarrow> nat \<times> int" where
  "time_rank t = (case t of None \<Rightarrow> (1, 0) | Some x \<Rightarrow> (0, x))"

definition city_time_rank :: "row \<Rightarrow> string \<times> nat \<times> int" where
  "city_time_rank r = (city r, time_rank (time r))"

definition sort_values_time :: "frame \<Rightarrow> error + frame" where
  "sort_values_time f =
     (if ''time'' \<notin> set (columns f) then Inl (KeyError ''time'')
      else Inr (f\<lparr>rows := sort_key (\<lambda>r. time_rank (time r)) (rows f)\<rparr>))"

definition sort_values_city_time :: "frame \<Rightarrow> error + frame" where
  "sort_values_city_time f =
     (if ''city'' \<notin> set (columns f) then Inl (KeyError ''city'')
      else if ''time'' \<notin> set (columns f) then Inl (KeyError ''time'')
      else Inr (f\<lparr>rows := sort_key city_time_rank (rows f)\<rparr>))"

text \<open>Sequencing of calls that may raise.\<close>

definition and_then :: "error + 'a \<Rightarrow> ('a \<Rightarrow> error + 'b) \<Rightarrow> error + 'b" where
  "and_then r f = (case r of Inl e \<Rightarrow> Inl e | Inr x \<Rightarrow> f x)"

text \<open>
  \<^verbatim>\<open>combine_hourly\<close>: the archive table is appended before the forecast table; \<open>JNull\<close>
  stands for \<^verbatim>\<open>None\<close>.
\<close>

definition payload_frames :: "(json \<Rightarrow> timestamp option) \<Rightarrow> json \<Rightarrow> string \<Rightarrow> error + frame list" where
  "payload_frames parse raw c =
     (if truthy raw then and_then (hourly_to_df parse raw c) (\<lambda>df. Inr [df]) else Inr [])"

definition combine_hourly :: "(json \<Rightarrow> timestamp option) \<Rightarrow> json \<Rightarrow> json \<Rightarrow> string \<Rightarrow> error + frame" where
  "combine_hourly parse raw_archive raw_forecast c =
     and_then (payload_frames parse raw_archive c) (\<lambda>da.
     and_then (payload_frames parse raw_forecast c) (\<lambda>df.
       if da @ df = [] then Inr empty_frame
       else and_then (pd_concat (da @ df)) (\<lambda>out.
            and_then (drop_duplicates out) sort_values_time)))"

section \<open>process\_weather.py: the daily summary\<close>

text \<open>\<^verbatim>\<open>df["time"].dt.date\<close>: the calendar day in UTC, counted from the epoch.\<close>

definition ns_per_day :: int where
  "ns_per_day = 86400000000000"

definition date_of :: "timestamp \<Rightarrow> int" where
  "date_of t = t div ns_per_day"

text \<open>
  \<^verbatim>\<open>agg_map\<close>, in the order of the dict; a field with one aggregate is a list of one
  name. With a list among the values, pandas labels every result column with the pair
  of the field and the aggregate.
\<close>

definition agg_map :: "(string \<times> string list) list" where
  "agg_map =
     [(''temperature_2m'', [''mean'', ''min'', ''max'']),
      (''relative_humidity_2m'', [''mean'']),
      (''precipitation'', [''sum'']),
      (''rain'', [''sum'']),
      (''snowfall'', [''sum'']),
      (''windspeed_10m'', [''mean'']),
      (''cloudcover'', [''mean'']),
      (''pressure_msl'', [''mean''])]"

definition agg_columns :: "(string \<times> string) list" where
  "agg_columns = concat (map (\<lambda>fa. map (\<lambda>a. (fst fa, a)) (snd fa)) agg_map)"

text \<open>\<^verbatim>\<open>"_".join([c for c in col if c])\<close>.\<close>

fun str_join :: "string \<Rightarrow> string list \<Rightarrow> string" where
  "str_join sep [] = []"
| "str_join sep [x] = x"
| "str_join sep (x # y # ys) = x @ sep @ str_join sep (y # ys)"

definition flatten :: "string \<times> string \<Rightarrow> string" where
  "flatten col = str_join ''_'' (filter (\<lambda>c. c \<noteq> []) [fst col, snd col])"

text \<open>
  The aggregates skip missing values (\<^verbatim>\<open>skipna\<close>): they see the numbers of the group
  only. Without any number, the mean, the minimum and the maximum are missing and the
  sum is 0.
\<close>

definition non_null :: "json list \<Rightarrow> rat list" where
  "non_null vs = concat (map (\<lambda>v. case v of JNum x \<Rightarrow> [x] | _ \<Rightarrow> []) vs)"

definition agg_mean :: "rat list \<Rightarrow> rat option" where
  "agg_mean xs = (if xs = [] then None else Some (sum_list xs / of_nat (length xs)))"

definition agg_min :: "rat list \<Rightarrow> rat option" where
  "agg_min xs = (if xs = [] then None else Some (Min (set xs)))"

definition agg_max :: "rat list \<Rightarrow> rat option" where
  "agg_max xs = (if xs = [] then None else Some (Max (set xs)))"

definition agg_sum :: "rat list \<Rightarrow> rat option" where
  "agg_sum xs = Some (sum_list xs)"

text \<open>The aggregate of a name; no other name occurs in \<^verbatim>\<open>agg_map\<close>.\<close>

definition agg_fun :: "string \<Rightarrow> rat list \<Rightarrow> rat option" where
  "agg_fun a xs =
     (if a = ''mean'' then agg_mean xs
      else if a = ''min'' then agg_min xs
      else if a = ''max'' then agg_max xs
      else if a = ''sum'' then agg_sum xs
      else None)"

record daily_row =
  d_city :: string
  d_date :: int
  d_cells :: "(string \<times> rat option) list"

record daily_frame =
  d_columns :: "string list"
  d_rows :: "daily_row list"

text \<open>
  The groups of \<^verbatim>\<open>groupby(["city", "date"])\<close>: a row without timestamp has no date and
  belongs to no group (\<^verbatim>\<open>dropna\<close>); the group keys come out sorted.
\<close>

definition group_key :: "row \<Rightarrow> (string \<times> int) option" where
  "group_key r = (case time r of None \<Rightarrow> None | Some t \<Rightarrow> Some (city r, date_of t))"

definition group_keys :: "row list \<Rightarrow> (string \<times> int) list" where
  "group_keys rs = sort (remdups (concat (map (\<lambda>r. case group_key r of None \<Rightarrow> [] | Some k \<Rightarrow> [k]) rs)))"

definition group_rows :: "row list \<Rightarrow> string \<times> int \<Rightarrow> row list" where
  "group_rows rs k = filter (\<lambda>r. group_key r = Some k) rs"

definition is_numeric :: "json \<Rightarrow> bool" where
  "is_numeric v \<longleftrightarrow> (case v of JNum x \<Rightarrow> True | JNull \<Rightarrow> True | _ \<Rightarrow> False)"

definition missing_fields :: "string list \<Rightarrow> string list" where
  "missing_fields cols = filter (\<lambda>f. f \<notin> set cols) (map fst agg_map)"

definition aggregate_group :: "row list \<Rightarrow> string \<times> int \<Rightarrow> daily_row" where
  "aggregate_group rs k =
     \<lparr>d_city = fst k, d_date = snd k,
      d_cells = map (\<lambda>fa. (flatten fa,
                            agg_fun (snd fa) (non_null (map (\<lambda>r. cell r (fst fa)) (group_rows rs k)))))
                    agg_columns\<rparr>"

text \<open>
  Lines 41 to 57 of \<^verbatim>\<open>summarize_daily\<close>. A column that the table lacks is a \<^verbatim>\<open>KeyError\<close>.
  The measurements of the API are numbers or null; a column holding anything else is
  outside that schema, and the model stops there with \<^verbatim>\<open>TypeError\<close>.
  \<^verbatim>\<open>reset_index\<close> puts the two group columns first.
\<close>

definition groupby_agg :: "frame \<Rightarrow> error + daily_frame" where
  "groupby_agg df =
     (if ''time'' \<notin> set (columns df) then Inl (KeyError ''time'')
      else if ''city'' \<notin> set (columns df) then Inl (KeyError ''city'')
      else if missing_fields (columns df) \<noteq> [] then Inl (KeyError (hd (missing_fields (columns df))))
      else if \<exists>r \<in> set (rows df). \<exists>f \<in> set (map fst agg_map). \<not> is_numeric (cell r f)
        then Inl TypeError
      else Inr \<lparr>d_columns = [''city'', ''date''] @ map flatten agg_columns,
                d_rows = map (aggregate_group (rows df)) (group_keys (rows df))\<rparr>)"

text \<open>\<^verbatim>\<open>summarize_daily\<close> hands an empty table back as it is.\<close>

datatype summary = Unchanged frame | Daily daily_frame

definition summarize_daily :: "frame \<Rightarrow> error + summary" where
  "summarize_daily hourly_df =
     (if df_empty hourly_df then Inr (Unchanged hourly_df)
      else and_then (groupby_agg hourly_df) (\<lambda>d. Inr (Daily d)))"

section \<open>run\_pipeline.py\<close>

record location =
  name :: string
  latitude :: rat
  longitude :: rat
  timezone :: string

text \<open>
  \<^verbatim>\<open>fetch_for_location\<close> and \<^verbatim>\<open>fetch_forecast\<close> are one call of \<^verbatim>\<open>_get_json\<close> each. The
  endpoint given to a worker is the sequence of answers that its own requests to that
  URL receive.
\<close>

definition fetch_for_location :: "endpoint \<Rightarrow> error + json" where
  "fetch_for_location ep = fst (get_json ep 0)"

definition fetch_forecast :: "endpoint \<Rightarrow> error + json" where
  "fetch_forecast ep = fst (get_json ep 0)"

text \<open>
  \<^verbatim>\<open>_worker_fetch_city\<close>: its result (the table, \<open>None\<close> when it is empty, or the exception
  that leaves the worker) and the raw files it has written. Both calls of
  \<^verbatim>\<open>save_raw_json\<close> are given the window of the run.
\<close>

definition worker_fetch_city ::
  "(json \<Rightarrow> timestamp option) \<Rightarrow> (string \<Rightarrow> string) \<Rightarrow> endpoint \<Rightarrow> endpoint \<Rightarrow> location
     \<Rightarrow> string \<Rightarrow> string \<Rightarrow> string \<Rightarrow> (error + frame option) \<times> string list" where
  "worker_fetch_city parse str_lower archive_ep forecast_ep loc start end raw_dir =
     (case fetch_for_location archive_ep of
        Inl e \<Rightarrow> (Inl e, [])
      | Inr archive \<Rightarrow>
          (case fetch_forecast forecast_ep of
             Inl e \<Rightarrow> (Inl e, [])
           | Inr forecast \<Rightarrow>
               (case save_raw_json str_lower raw_dir (name loc) ''archive'' (Some start) (Some end) of
                  Inl e \<Rightarrow> (Inl e, [])
                | Inr archive_path \<Rightarrow>
                    (case save_raw_json str_lower raw_dir (name loc) ''forecast'' (Some start) (Some end) of
                       Inl e \<Rightarrow> (Inl e, [archive_path])
                     | Inr forecast_path \<Rightarrow>
                         (case combine_hourly parse archive forecast (name loc) of
                            Inl e \<Rightarrow> (Inl e, [archive_path, forecast_path])
                          | Inr hourly \<Rightarrow>
                              (if df_empty hourly then Inr None else Inr (Some hourly),
                               [archive_path, forecast_path]))))))"

text \<open>
  The end of a run: \<^verbatim>\<open>sys.exit(n)\<close>, an exception that nothing catches, or the tables
  persisted (the plots and the upload that follow are outside the model).
\<close>

datatype outcome = Exit nat | Uncaught error | Persisted

record run =
  outcome :: outcome
  written :: "string list"

text \<open>The exit status of the process: an uncaught exception ends Python with status 1.\<close>

definition exit_code :: "outcome \<Rightarrow> nat option" where
  "exit_code out = (case out of Exit n \<Rightarrow> Some n | Uncaught e \<Rightarrow> Some 1 | Persisted \<Rightarrow> None)"

text \<open>
  \<^verbatim>\<open>compute(*tasks)\<close> re-raises the exception of a failed task; which one, when several
  fail, is of no consequence here and the model takes the first in task order.
\<close>

fun first_error :: "(error + 'a) list \<Rightarrow> error option" where
  "first_error [] = None"
| "first_error (Inl e # rs) = Some e"
| "first_error (Inr x # rs) = first_error rs"

definition all_hourly_of :: "(error + frame option) list \<Rightarrow> frame list" where
  "all_hourly_of results =
     concat (map (\<lambda>r. case r of Inr (Some df) \<Rightarrow> [df] | _ \<Rightarrow> []) results)"

text \<open>Lines 87 to 91: the merge of the tables of all locations.\<close>

definition merge_hourly :: "frame list \<Rightarrow> error + frame" where
  "merge_hourly all_hourly = and_then (pd_concat all_hourly) sort_values_city_time"

text \<open>
  Lines 79 to 105 of \<^verbatim>\<open>run_pipeline\<close>, from the results of the workers: \<open>written\<close> lists
  the files of the processed directory in the order they are written.
\<close>

definition persist_results :: "(error + frame option) list \<Rightarrow> string \<Rightarrow> run" where
  "persist_results results processed_dir =
     (case first_error results of
        Some e \<Rightarrow> \<lparr>outcome = Uncaught e, written = []\<rparr>
      | None \<Rightarrow>
          (if all_hourly_of results = [] then \<lparr>outcome = Exit 1, written = []\<rparr>
           else (case merge_hourly (all_hourly_of results) of
                   Inl e \<Rightarrow> \<lparr>outcome = Uncaught e, written = []\<rparr>
                 | Inr hourly_df \<Rightarrow>
                     (case summarize_daily hourly_df of
                        Inl e \<Rightarrow> \<lparr>outcome = Uncaught e,
                                   written = [os_path_join processed_dir ''hourly.parquet'']\<rparr>
                      | Inr daily_df \<Rightarrow>
                          \<lparr>outcome = Persisted,
                           written = [os_path_join processed_dir ''hourly.parquet'',
                                      os_path_join processed_dir ''daily_summary.parquet'',
                                      os_path_join processed_dir ''hourly.csv'',
                                      os_path_join processed_dir ''daily_summary.csv'']\<rparr>))))"

definition run_pipeline ::
  "(json \<Rightarrow> timestamp option) \<Rightarrow> (string \<Rightarrow> string) \<Rightarrow> (endpoint \<times> endpoint \<times> location) list
     \<Rightarrow> string \<Rightarrow> string \<Rightarrow> string \<Rightarrow> run" where
  "run_pipeline parse str_lower tasks start end data_dir =
     persist_results
       (map (\<lambda>(archive_ep, forecast_ep, loc).
               fst (worker_fetch_city parse str_lower archive_ep forecast_ep loc start end
                      (os_path_join data_dir ''raw'')))
            tasks)
       (os_path_join data_dir ''processed'')"

section \<open>Concrete inputs\<close>

text \<open>
  One admissible entry parser for the examples: a number is an offset from the epoch in
  nanoseconds, as pandas reads it, and any other entry is taken as unparseable. The
  theorems hold for every parser.
\<close>

definition parse_ns :: "json \<Rightarrow> timestamp option" where
  "parse_ns j = (case j of JNum x \<Rightarrow> Some (\<lfloor>x\<rfloor>) | _ \<Rightarrow> None)"

text \<open>An endpoint that always answers 200 with the empty object.\<close>

definition ep_empty_object :: endpoint where
  "ep_empty_object i = \<lparr>status_code = 200, body = Some (JObj []), retry_after = False\<rparr>"

definition loc_austin :: location where
  "loc_austin = \<lparr>name = ''Austin'', latitude = 30, longitude = -97, timezone = ''UTC''\<rparr>"

definition loc_new_york :: location where
  "loc_new_york = \<lparr>name = ''New York'', latitude = 40, longitude = -74, timezone = ''UTC''\<rparr>"

text \<open>
  Four hours of one day in one city, with the temperatures 10, 20, null and 30 and no
  precipitation value at all.
\<close>

definition example_row :: "timestamp \<Rightarrow> json \<Rightarrow> row" where
  "example_row t temp =
     \<lparr>city = ''Austin'', time = Some t,
      cells = [(''temperature_2m'', temp), (''relative_humidity_2m'', JNum 50),
               (''precipitation'', JNull), (''rain'', JNum 1), (''snowfall'', JNum 0),
               (''windspeed_10m'', JNum 4), (''cloudcover'', JNum 80),
               (''pressure_msl'', JNum 1013)]\<rparr>"

definition example_hourly :: frame where
  "example_hourly =
     \<lparr>columns = [''time'', ''temperature_2m'', ''relative_humidity_2m'', ''precipitation'',
                 ''rain'', ''snowfall'', ''windspeed_10m'', ''cloudcover'', ''pressure_msl'',
                 ''city''],
      rows = [example_row 0 (JNum 10), example_row 3600000000000 (JNum 20),
              example_row 7200000000000 JNull, example_row 10800000000000 (JNum 30)]\<rparr>"

definition example_daily :: daily_frame where
  "example_daily =
     \<lparr>d_columns = [''city'', ''date'', ''temperature_2m_mean'', ''temperature_2m_min'',
                   ''temperature_2m_max'', ''relative_humidity_2m_mean'', ''precipitation_sum'',
                   ''rain_sum'', ''snowfall_sum'', ''windspeed_10m_mean'', ''cloudcover_mean'',
                   ''pressure_msl_mean''],
      d_rows = [\<lparr>d_city = ''Austin'', d_date = 0,
                 d_cells = [(''temperature_2m_mean'', Some 20), (''temperature_2m_min'', Some 10),
                            (''temperature_2m_max'', Some 30),
                            (''relative_humidity_2m_mean'', Some 50),
                            (''precipitation_sum'', Some 0), (''rain_sum'', Some 4),
                            (''snowfall_sum'', Some 0), (''windspeed_10m_mean'', Some 4),
                            (''cloudcover_mean'', Some 80),
                            (''pressure_msl_mean'', Some 1013)]\<rparr>]\<rparr>"

text \<open>A worker result that brings no table: an exception, or \<open>None\<close>.\<close>

definition empty_or_failed :: "error + frame option \<Rightarrow> bool" where
  "empty_or_failed r \<longleftrightarrow> (case r of Inl e \<Rightarrow> True | Inr None \<Rightarrow> True | Inr (Some df) \<Rightarrow> False)"

definition example_tasks :: "(endpoint \<times> endpoint \<times> location) list" where
  "example_tasks =
     [(ep_always_404, ep_always_404, loc_austin), (ep_empty_object, ep_empty_object, loc_new_york)]"

text \<open>
  A field of the hourly block that fits a table of \<open>n\<close> rows: an array of \<open>n\<close>
  values, or a scalar.
\<close>

definition aligned :: "nat \<Rightarrow> json \<Rightarrow> bool" where
  "aligned n v \<longleftrightarrow> (case v of JArr vs \<Rightarrow> length vs = n | JObj kvs \<Rightarrow> False | _ \<Rightarrow> True)"

text \<open>A payload whose second time entry does not parse, and one whose columns differ in length.\<close>

definition payload_bad_time :: json where
  "payload_bad_time =
     JObj [(''hourly'', JObj [(''time'', JArr [JNum 0, JStr ''n/a'']),
                              (''temperature_2m'', JArr [JNum 10, JNum 20])])]"

definition payload_mismatch :: json where
  "payload_mismatch =
     JObj [(''hourly'', JObj [(''time'', JArr [JNum 0, JNum 3600000000000]),
                              (''temperature_2m'', JArr [JNum 10])])]"

text \<open>
  An archive payload and a forecast payload that overlap in the second hour, with
  different temperatures there; the archive lists its hours out of order.
\<close>

definition payload_archive :: json where
  "payload_archive =
     JObj [(''hourly'', JObj [(''time'', JArr [JNum 3600000000000, JNum 0]),
                              (''temperature_2m'', JArr [JNum 11, JNum 10])])]"

definition payload_forecast :: json where
  "payload_forecast =
     JObj [(''hourly'', JObj [(''time'', JArr [JNum 3600000000000, JNum 7200000000000]),
                              (''temperature_2m'', JArr [JNum 99, JNum 12])])]"

definition frame_archive :: frame where
  "frame_archive =
     \<lparr>columns = [''time'', ''temperature_2m'', ''city''],
      rows = [\<lparr>city = ''Austin'', time = Some 3600000000000, cells = [(''temperature_2m'', JNum 11)]\<rparr>,
              \<lparr>city = ''Austin'', time = Some 0, cells = [(''temperature_2m'', JNum 10)]\<rparr>]\<rparr>"

definition frame_forecast :: frame where
  "frame_forecast =
     \<lparr>columns = [''time'', ''temperature_2m'', ''city''],
      rows = [\<lparr>city = ''Austin'', time = Some 3600000000000, cells = [(''temperature_2m'', JNum 99)]\<rparr>,
              \<lparr>city = ''Austin'', time = Some 7200000000000, cells = [(''temperature_2m'', JNum 12)]\<rparr>]\<rparr>"

definition frame_combined :: frame where
  "frame_combined =
     \<lparr>columns = [''time'', ''temperature_2m'', ''city''],
      rows = [\<lparr>city = ''Austin'', time = Some 0, cells = [(''temperature_2m'', JNum 10)]\<rparr>,
              \<lparr>city = ''Austin'', time = Some 3600000000000, cells = [(''temperature_2m'', JNum 11)]\<rparr>,
              \<lparr>city = ''Austin'', time = Some 7200000000000, cells = [(''temperature_2m'', JNum 12)]\<rparr>]\<rparr>"

text \<open>The merge of the forecast table and the archive table above, in that order.\<close>

definition frame_merged :: frame where
  "frame_merged =
     \<lparr>columns = [''time'', ''temperature_2m'', ''city''],
      rows = [\<lparr>city = ''Austin'', time = Some 0, cells = [(''temperature_2m'', JNum 10)]\<rparr>,
              \<lparr>city = ''Austin'', time = Some 3600000000000, cells = [(''temperature_2m'', JNum 99)]\<rparr>,
              \<lparr>city = ''Austin'', time = Some 3600000000000, cells = [(''temperature_2m'', JNum 11)]\<rparr>,
              \<lparr>city = ''Austin'', time = Some 7200000000000, cells = [(''temperature_2m'', JNum 12)]\<rparr>]\<rparr>"

text \<open>Two payloads of one hour each, at different hours.\<close>

definition payload_hour0 :: json where
  "payload_hour0 =
     JObj [(''hourly'', JObj [(''time'', JArr [JNum 0]), (''temperature_2m'', JArr [JNum 10])])]"

definition payload_hour1 :: json where
  "payload_hour1 =
     JObj [(''hourly'', JObj [(''time'', JArr [JNum 3600000000000]),
                              (''temperature_2m'', JArr [JNum 11])])]"

text \<open>
  The inputs of the workers whose tables reach the merge: per location the two payloads
  and the label. The tables of two locations with the same label share no key exactly
  when they share no timestamp.
\<close>

type_synonym worker_input = "json \<times> json \<times> string"

definition label :: "worker_input \<Rightarrow> string" where
  "label w = snd (snd w)"

definition combined :: "(json \<Rightarrow> timestamp option) \<Rightarrow> worker_input \<Rightarrow> frame \<Rightarrow> bool" where
  "combined parse w t \<longleftrightarrow> combine_hourly parse (fst w) (fst (snd w)) (label w) = Inr t"

definition times_of :: "frame \<Rightarrow> timestamp option list" where
  "times_of t = map time (rows t)"

text \<open>
  No two locations of the same label share a timestamp: the list pairs the label of
  every location with the timestamps of its table.
\<close>

fun no_shared_time :: "(string \<times> timestamp option list) list \<Rightarrow> bool" where
  "no_shared_time [] = True"
| "no_shared_time (p # rest) =
     ((\<forall>q \<in> set rest. fst p = fst q \<longrightarrow> set (snd p) \<inter> set (snd q) = {})
      \<and> no_shared_time rest)"

definition one_hour_frame :: "string \<Rightarrow> timestamp \<Rightarrow> rat \<Rightarrow> frame" where
  "one_hour_frame c t x =
     \<lparr>columns = [''time'', ''temperature_2m'', ''city''],
      rows = [\<lparr>city = c, time = Some t, cells = [(''temperature_2m'', JNum x)]\<rparr>]\<rparr>"

section \<open>The daily aggregates as the specification words them\<close>

text \<open>
  The group of a city and a UTC day, the values of a field in a group that are not null,
  and the aggregates over such values: the mean divides by the number of values that are
  present, and a group without any value has no mean, minimum or maximum and the sum 0.
\<close>

definition group_of :: "frame \<Rightarrow> string \<Rightarrow> int \<Rightarrow> row list" where
  "group_of df c d =
     filter (\<lambda>r. city r = c \<and> (case time r of None \<Rightarrow> False | Some t \<Rightarrow> date_of t = d)) (rows df)"

definition values_of :: "row list \<Rightarrow> string \<Rightarrow> rat list" where
  "values_of g f = concat (map (\<lambda>r. case cell r f of JNum x \<Rightarrow> [x] | _ \<Rightarrow> []) g)"

definition mean_of :: "rat list \<Rightarrow> rat option" where
  "mean_of xs = (if xs = [] then None else Some (sum_list xs / of_nat (length xs)))"

definition min_of :: "rat list \<Rightarrow> rat option" where
  "min_of xs = (if xs = [] then None else Some (Min (set xs)))"

definition max_of :: "rat list \<Rightarrow> rat option" where
  "max_of xs = (if xs = [] then None else Some (Max (set xs)))"

definition sum_of :: "rat list \<Rightarrow> rat option" where
  "sum_of xs = Some (sum_list xs)"

definition spec_daily_cells :: "row list \<Rightarrow> (string \<times> rat option) list" where
  "spec_daily_cells g =
     [(''temperature_2m_mean'', mean_of (values_of g ''temperature_2m'')),
      (''temperature_2m_min'', min_of (values_of g ''temperature_2m'')),
      (''temperature_2m_max'', max_of (values_of g ''temperature_2m'')),
      (''relative_humidity_2m_mean'', mean_of (values_of g ''relative_humidity_2m'')),
      (''precipitation_sum'', sum_of (values_of g ''precipitation'')),
      (''rain_sum'', sum_of (values_of g ''rain'')),
      (''snowfall_sum'', sum_of (values_of g ''snowfall'')),
      (''windspeed_10m_mean'', mean_of (values_of g ''windspeed_10m'')),
      (''cloudcover_mean'', mean_of (values_of g ''cloudcover'')),
      (''pressure_msl_mean'', mean_of (values_of g ''pressure_msl''))]"

text \<open>
  An hourly table with the schema of the API: the key columns and the aggregated fields
  are columns of the table, and the cells of those fields are numbers or null.
\<close>

definition hourly_schema :: "frame \<Rightarrow> bool" where
  "hourly_schema df \<longleftrightarrow>
     ''time'' \<in> set (columns df) \<and> ''city'' \<in> set (columns df)
     \<and> list_all (\<lambda>f. f \<in> set (columns df)) (map fst agg_map)
     \<and> list_all (\<lambda>r. list_all (\<lambda>f. is_numeric (cell r f)) (map fst agg_map)) (rows df)"

section \<open>Properties of the HTTP client\<close>

lemma adapter_send_pass:
  "\<not> is_retry (ep n) \<Longrightarrow> adapter_send k ep n = (ep n, Suc n)"
  by (cases k) simp_all

lemma session_get_pass:
  "\<not> is_retry (ep n) \<Longrightarrow> session_get ep n = (ep n, Suc n)"
  by (simp add: session_get_def adapter_send_pass)

lemma non_retryable_is_retry:
  "non_retryable (status_code resp) \<Longrightarrow>
     is_retry resp \<longleftrightarrow> status_code resp = 413 \<and> retry_after resp"
  by (auto simp: non_retryable_def is_retry_def status_forcelist_def retry_after_status_codes_def)

lemma non_retryable_raises:
  "non_retryable (status_code resp) \<Longrightarrow>
     raise_for_status resp = Inl (HTTPError (status_code resp))"
  by (simp add: non_retryable_def raise_for_status_def)

lemma adapter_send_retry:
  "is_retry (ep n) \<Longrightarrow> adapter_send (Suc k) ep n = adapter_send k ep (Suc n)"
  by simp


lemma loop_non_retryable_step:
  assumes "get n = (resp, n')" "non_retryable (status_code resp)" "attempt < 7"
    and "attempt' = attempt + 1"
  shows "get_json_loop get attempt n = get_json_loop get attempt' n'"
proof -
  have s: "status_code resp \<noteq> 429"
    using assms(2) by (simp add: non_retryable_def)
  show ?thesis
    using assms(1,3,4) s
    by (subst get_json_loop.simps) (simp add: non_retryable_raises [OF assms(2)])
qed

lemma loop_non_retryable_last:
  assumes "get n = (resp, n')" "non_retryable (status_code resp)" "attempt \<ge> 7"
  shows "get_json_loop get attempt n = (Inl (HTTPError (status_code resp)), n')"
proof -
  have s: "status_code resp \<noteq> 429"
    using assms(2) by (simp add: non_retryable_def)
  show ?thesis
    using assms(1,3) s
    by (subst get_json_loop.simps) (simp add: non_retryable_raises [OF assms(2)])
qed



lemma session_loop_step:
  assumes "non_retryable (status_code (ep n))" "\<not> is_retry (ep n)" "attempt < 7"
    and "attempt' = attempt + 1" "n' = n + 1"
  shows "get_json_loop (session_get ep) attempt n = get_json_loop (session_get ep) attempt' n'"
proof -
  have g: "session_get ep n = (ep n, n')"
    using assms(2,5) by (simp add: session_get_pass)
  show ?thesis
    using g assms(1,3,4)
    by (rule loop_non_retryable_step [where get = "session_get ep" and resp = "ep n"])
qed

lemma session_loop_last:
  assumes "non_retryable (status_code (ep n))" "\<not> is_retry (ep n)" "attempt \<ge> 7"
  shows "get_json_loop (session_get ep) attempt n =
         (Inl (HTTPError (status_code (ep n))), Suc n)"
proof -
  have g: "session_get ep n = (ep n, Suc n)"
    using assms(2) by (simp add: session_get_pass)
  show ?thesis
    using g assms(1,3)
    by (rule loop_non_retryable_last [where get = "session_get ep" and resp = "ep n"])
qed

lemma get_json_seven_client_errors:
  assumes "\<forall>i<7. non_retryable (status_code (ep (m + i))) \<and> \<not> is_retry (ep (m + i))"
  shows "get_json ep m = (Inl (HTTPError (status_code (ep (m + 6)))), m + 7)"
proof -
  have nr: "non_retryable (status_code (ep (m + i)))" if "i < 7" for i
    using assms that by blast
  have ni: "\<not> is_retry (ep (m + i))" if "i < 7" for i
    using assms that by blast
  have "get_json ep m = get_json_loop (session_get ep) 1 m"
    by (simp add: get_json_def)
  also have "\<dots> = get_json_loop (session_get ep) 2 (m + 1)"
    by (rule session_loop_step) (use nr [of 0] ni [of 0] in simp_all)
  also have "\<dots> = get_json_loop (session_get ep) 3 (m + 2)"
    by (rule session_loop_step) (use nr [of 1] ni [of 1] in simp_all)
  also have "\<dots> = get_json_loop (session_get ep) 4 (m + 3)"
    by (rule session_loop_step) (use nr [of 2] ni [of 2] in simp_all)
  also have "\<dots> = get_json_loop (session_get ep) 5 (m + 4)"
    by (rule session_loop_step) (use nr [of 3] ni [of 3] in simp_all)
  also have "\<dots> = get_json_loop (session_get ep) 6 (m + 5)"
    by (rule session_loop_step) (use nr [of 4] ni [of 4] in simp_all)
  also have "\<dots> = get_json_loop (session_get ep) 7 (m + 6)"
    by (rule session_loop_step) (use nr [of 5] ni [of 5] in simp_all)
  also have "\<dots> = (Inl (HTTPError (status_code (ep (m + 6)))), m + 7)"
    using session_loop_last [of ep "m + 6" 7] nr [of 6] ni [of 6] by simp
  finally show ?thesis .
qed

text \<open>
  Claim C3, as the code has it. When \<^verbatim>\<open>_SESSION.get\<close> returns a response with a status from
  400 to 499 other than 429, \<^verbatim>\<open>raise_for_status\<close> raises and the handler swallows the
  error on the attempts 1 to 6: the loop calls \<^verbatim>\<open>_SESSION.get\<close> again. Only the seventh
  attempt re-raises. The adapter hands such a response back after one request unless it
  is a 413 with a \<^verbatim>\<open>Retry-After\<close> header, which the adapter itself requests again; so with
  seven such answers in a row that the adapter does not retry, \<^verbatim>\<open>_get_json\<close> raises
  \<^verbatim>\<open>HTTPError\<close> after exactly 7 requests.
\<close>

theorem get_json_client_error_retried:
  assumes "get n = (resp, n')" and "non_retryable (status_code resp)"
  shows "(attempt < 7 \<longrightarrow>
            get_json_loop get attempt n = get_json_loop get (attempt + 1) n')
       \<and> (attempt \<ge> 7 \<longrightarrow>
            get_json_loop get attempt n = (Inl (HTTPError (status_code resp)), n'))
       \<and> (is_retry resp \<longleftrightarrow> status_code resp = 413 \<and> retry_after resp)
       \<and> ((\<forall>i<7. non_retryable (status_code (ep (m + i))) \<and> \<not> is_retry (ep (m + i))) \<longrightarrow>
            get_json ep m = (Inl (HTTPError (status_code (ep (m + 6)))), m + 7))"
proof (intro conjI impI)
  assume "attempt < 7"
  then show "get_json_loop get attempt n = get_json_loop get (attempt + 1) n'"
    using assms
    by (intro loop_non_retryable_step [where get = get and resp = resp]) simp_all
next
  assume "attempt \<ge> 7"
  then show "get_json_loop get attempt n = (Inl (HTTPError (status_code resp)), n')"
    using assms
    by (intro loop_non_retryable_last [where get = get and resp = resp]) simp_all
next
  show "is_retry resp \<longleftrightarrow> status_code resp = 413 \<and> retry_after resp"
    using non_retryable_is_retry [OF assms(2)] .
next
  assume "\<forall>i<7. non_retryable (status_code (ep (m + i))) \<and> \<not> is_retry (ep (m + i))"
  then show "get_json ep m = (Inl (HTTPError (status_code (ep (m + 6)))), m + 7)"
    by (rule get_json_seven_client_errors)
qed

theorem get_json_client_error_retried_witness:
  "session_get ep_always_404 0 = (ep_always_404 0, 1)
   \<and> non_retryable (status_code (ep_always_404 0))
   \<and> \<not> is_retry (ep_always_404 0)
   \<and> get_json ep_always_404 0 = (Inl (HTTPError 404), 7)
   \<and> get_json_loop (session_get ep_always_404) 7 0 = (Inl (HTTPError 404), 1)
   \<and> get_json_loop (session_get ep_always_404) 6 0 =
       get_json_loop (session_get ep_always_404) 7 1
   \<and> is_retry (ep_always_413_retry_after 0)
   \<and> get_json ep_always_413_retry_after 0 = (Inl (HTTPError 413), 49)"
proof -
  have g: "session_get ep_always_404 0 = (ep_always_404 0, 1)"
    by code_simp
  have h: "non_retryable (status_code (ep_always_404 0))"
    by (simp add: ep_always_404_def non_retryable_def)
  have r: "\<not> is_retry (ep_always_404 0)"
    by code_simp
  have a: "\<forall>i<7. non_retryable (status_code (ep_always_404 (0 + i)))
                  \<and> \<not> is_retry (ep_always_404 (0 + i))"
    by (simp add: ep_always_404_def non_retryable_def is_retry_def status_forcelist_def
        retry_after_status_codes_def)
  have s: "status_code (ep_always_404 0) = 404" "status_code (ep_always_404 (0 + 6)) = 404"
    by (simp_all add: ep_always_404_def)
  have l: "is_retry (ep_always_413_retry_after 0)"
    and b: "get_json ep_always_413_retry_after 0 = (Inl (HTTPError 413), 49)"
    by code_simp+
  note t = get_json_client_error_retried [where get = "session_get ep_always_404" and n = 0
      and resp = "ep_always_404 0" and n' = 1 and ep = ep_always_404 and m = 0]
  have t7: "get_json_loop (session_get ep_always_404) 7 0 = (Inl (HTTPError 404), 1)"
    using t [of 7] g h s by simp
  have t6: "get_json_loop (session_get ep_always_404) 6 0 =
       get_json_loop (session_get ep_always_404) 7 1"
    using t [of 6] g h by simp
  have tg: "get_json ep_always_404 0 = (Inl (HTTPError 404), 7)"
    using t [of 7] g h a s by simp
  show ?thesis
    using g h r l b t7 t6 tg by blast
qed

text \<open>
  The claim C3 as stated fails: the first answer is a 404, the second a 200, and
  \<^verbatim>\<open>_get_json\<close> returns the body of the second after 2 requests instead of failing
  after the first.
\<close>

theorem get_json_client_error_counterexample:
  "non_retryable (status_code (ep_404_then_200 0))
   \<and> get_json ep_404_then_200 0 = (Inr (JObj [(''hourly'', JObj [])]), 2)"
  by code_simp



section \<open>Properties of the raw file names\<close>








section \<open>Properties of the run\<close>

lemma first_error_None: "first_error rs = None \<Longrightarrow> r \<in> set rs \<Longrightarrow> \<exists>x. r = Inr x"
  by (induction rs rule: first_error.induct) auto

lemma all_hourly_of_none:
  "\<forall>r \<in> set rs. empty_or_failed r \<Longrightarrow> all_hourly_of rs = []"
  by (induction rs) (auto simp: all_hourly_of_def empty_or_failed_def split: sum.splits option.splits)

lemma persist_results_abort:
  assumes "\<forall>r \<in> set results. empty_or_failed r"
  shows "written (persist_results results dir) = []
       \<and> (\<exists>n. exit_code (outcome (persist_results results dir)) = Some n \<and> n \<noteq> 0)"
  using all_hourly_of_none [OF assms]
  by (auto simp: persist_results_def exit_code_def split: option.splits)

text \<open>
  Claim C6: when the worker of every configured location ends with an exception or with
  \<open>None\<close>, the run ends with a non-zero exit status and has written no file of the
  processed directory.
\<close>

theorem run_pipeline_all_fail_abort:
  assumes "\<forall>(archive_ep, forecast_ep, loc) \<in> set tasks.
             empty_or_failed (fst (worker_fetch_city parse str_lower archive_ep forecast_ep loc start end
                                     (os_path_join data_dir ''raw'')))"
  shows "written (run_pipeline parse str_lower tasks start end data_dir) = []
       \<and> (\<exists>n. exit_code (outcome (run_pipeline parse str_lower tasks start end data_dir)) = Some n
              \<and> n \<noteq> 0)"
  unfolding run_pipeline_def
  by (rule persist_results_abort) (use assms in auto)

theorem run_pipeline_all_fail_abort_witness:
  "list_all (\<lambda>(archive_ep, forecast_ep, loc).
      empty_or_failed (fst (worker_fetch_city parse_ns ascii_lower archive_ep forecast_ep loc ''2024-10-01''
                              ''2024-10-07'' (os_path_join ''./data'' ''raw''))))
     example_tasks
   \<and> written (run_pipeline parse_ns ascii_lower example_tasks ''2024-10-01'' ''2024-10-07'' ''./data'') = []
   \<and> exit_code (outcome (run_pipeline parse_ns ascii_lower example_tasks ''2024-10-01'' ''2024-10-07'' ''./data''))
       = Some 1"
proof -
  have h: "\<forall>(archive_ep, forecast_ep, loc) \<in> set example_tasks.
      empty_or_failed (fst (worker_fetch_city parse_ns ascii_lower archive_ep forecast_ep loc ''2024-10-01''
                              ''2024-10-07'' (os_path_join ''./data'' ''raw'')))"
    by code_simp
  have e: "exit_code (outcome (run_pipeline parse_ns ascii_lower example_tasks ''2024-10-01'' ''2024-10-07'' ''./data''))
       = Some 1"
    by code_simp
  show ?thesis
    using h e run_pipeline_all_fail_abort [OF h] by (simp add: list_all_iff)
qed

section \<open>Columns of the daily summary\<close>

lemma agg_columns_eq:
  "agg_columns =
     [(''temperature_2m'', ''mean''), (''temperature_2m'', ''min''), (''temperature_2m'', ''max''),
      (''relative_humidity_2m'', ''mean''), (''precipitation'', ''sum''), (''rain'', ''sum''),
      (''snowfall'', ''sum''), (''windspeed_10m'', ''mean''), (''cloudcover'', ''mean''),
      (''pressure_msl'', ''mean'')]"
  by (simp add: agg_columns_def agg_map_def)

lemma flatten_pair: "f \<noteq> [] \<Longrightarrow> a \<noteq> [] \<Longrightarrow> flatten (f, a) = f @ ''_'' @ a"
  by (simp add: flatten_def)

lemma summarize_daily_Daily:
  assumes "\<not> df_empty h" "summarize_daily h = Inr s"
  shows "\<exists>d. s = Daily d \<and> groupby_agg h = Inr d"
  using assms by (auto simp: summarize_daily_def and_then_def split: sum.splits)

lemma groupby_agg_columns:
  assumes "groupby_agg h = Inr d"
  shows "d_columns d = [''city'', ''date''] @ map flatten agg_columns"
    and "\<forall>dr \<in> set (d_rows d). map fst (d_cells dr) = map flatten agg_columns"
  using assms
  by (auto simp: groupby_agg_def aggregate_group_def comp_def split: if_splits)

text \<open>
  Claim C8, as the code has it. For a non-empty hourly table that \<^verbatim>\<open>summarize_daily\<close>
  accepts, the daily table has the columns \<^verbatim>\<open>city\<close> and \<^verbatim>\<open>date\<close> followed by 10 aggregate
  columns (not 11), each named by its field, an underscore and its aggregate, the
  fields with a single aggregate included; every row holds exactly these cells.
\<close>

theorem summarize_daily_columns:
  assumes "\<not> df_empty h" and "summarize_daily h = Inr s"
  shows "\<exists>d. s = Daily d
     \<and> d_columns d = ''city'' # ''date'' # map (\<lambda>fa. fst fa @ ''_'' @ snd fa)
         [(''temperature_2m'', ''mean''), (''temperature_2m'', ''min''), (''temperature_2m'', ''max''),
          (''relative_humidity_2m'', ''mean''), (''precipitation'', ''sum''), (''rain'', ''sum''),
          (''snowfall'', ''sum''), (''windspeed_10m'', ''mean''), (''cloudcover'', ''mean''),
          (''pressure_msl'', ''mean'')]
     \<and> length (d_columns d) = 2 + 10
     \<and> (\<forall>dr \<in> set (d_rows d). map fst (d_cells dr) = drop 2 (d_columns d))"
proof -
  obtain d where d: "s = Daily d" "groupby_agg h = Inr d"
    using summarize_daily_Daily [OF assms] by blast
  have c: "d_columns d = [''city'', ''date''] @ map flatten agg_columns"
    using groupby_agg_columns(1) [OF d(2)] .
  have r: "\<forall>dr \<in> set (d_rows d). map fst (d_cells dr) = map flatten agg_columns"
    using groupby_agg_columns(2) [OF d(2)] .
  have f: "map flatten agg_columns = map (\<lambda>fa. fst fa @ ''_'' @ snd fa)
         [(''temperature_2m'', ''mean''), (''temperature_2m'', ''min''), (''temperature_2m'', ''max''),
          (''relative_humidity_2m'', ''mean''), (''precipitation'', ''sum''), (''rain'', ''sum''),
          (''snowfall'', ''sum''), (''windspeed_10m'', ''mean''), (''cloudcover'', ''mean''),
          (''pressure_msl'', ''mean'')]"
    unfolding agg_columns_eq by (simp add: flatten_pair)
  show ?thesis
    using d(1) c r unfolding f by simp
qed

theorem summarize_daily_columns_witness:
  "\<not> df_empty example_hourly
   \<and> summarize_daily example_hourly = Inr (Daily example_daily)
   \<and> d_columns example_daily =
       [''city'', ''date'', ''temperature_2m_mean'', ''temperature_2m_min'', ''temperature_2m_max'',
        ''relative_humidity_2m_mean'', ''precipitation_sum'', ''rain_sum'', ''snowfall_sum'',
        ''windspeed_10m_mean'', ''cloudcover_mean'', ''pressure_msl_mean'']"
proof -
  have n: "\<not> df_empty example_hourly" by code_simp
  have s: "summarize_daily example_hourly = Inr (Daily example_daily)" by code_simp
  show ?thesis
    using n s summarize_daily_columns [OF n s] by simp
qed

text \<open>
  The claim C8 as stated fails on the count: the daily table of the example has 10
  aggregate columns after \<^verbatim>\<open>city\<close> and \<^verbatim>\<open>date\<close>, not 11.
\<close>

theorem summarize_daily_columns_counterexample:
  "\<not> df_empty example_hourly
   \<and> summarize_daily example_hourly = Inr (Daily example_daily)
   \<and> length (d_columns example_daily) - 2 = 10
   \<and> length (d_columns example_daily) - 2 \<noteq> 11"
  by code_simp

section \<open>Properties of the normalisation\<close>

lemma map_fst_set_scalar: "map fst (set_scalar k v rs) = map fst rs"
  by (induction rs) (auto simp: set_scalar_def)

lemma map_fst_set_values:
  "length vs = length rs \<Longrightarrow> map fst (set_values k vs rs) = map fst rs"
proof (induction rs arbitrary: vs)
  case Nil
  then show ?case by (simp add: set_values_def)
next
  case (Cons r rs)
  then obtain v vs' where "vs = v # vs'" by (cases vs) auto
  with Cons show ?case by (auto simp: set_values_def split: prod.splits)
qed

lemma assign_aligned:
  assumes "aligned (length rs) v"
  shows "\<exists>cols' rs'. assign k v (cols, rs) = Inr (cols', rs') \<and> map fst rs' = map fst rs"
  using assms
  by (cases v) (auto simp: aligned_def map_fst_set_scalar map_fst_set_values)

lemma assign_all_aligned:
  assumes "list_all (\<lambda>kv. fst kv = ''time'' \<or> aligned (length rs) (snd kv)) hs"
  shows "\<exists>cols' rs'. assign_all hs (cols, rs) = Inr (cols', rs') \<and> map fst rs' = map fst rs"
  using assms
proof (induction hs arbitrary: cols rs)
  case Nil
  then show ?case by simp
next
  case (Cons kv hs)
  obtain k v where kv: "kv = (k, v)" by (cases kv)
  show ?case
  proof (cases "k = ''time''")
    case True
    with Cons kv show ?thesis by simp
  next
    case False
    with Cons.prems kv have "aligned (length rs) v" by simp
    then obtain cols1 rs1 where a: "assign k v (cols, rs) = Inr (cols1, rs1)"
      and f: "map fst rs1 = map fst rs"
      using assign_aligned by blast
    from f have l: "length rs1 = length rs"
      using map_eq_imp_length_eq by blast
    have "list_all (\<lambda>kv. fst kv = ''time'' \<or> aligned (length rs1) (snd kv)) hs"
      using Cons.prems l by simp
    from Cons.IH [OF this, of cols1] obtain cols' rs'
      where "assign_all hs (cols1, rs1) = Inr (cols', rs')" "map fst rs' = map fst rs1"
      by blast
    with a f False kv show ?thesis by simp
  qed
qed

lemma hourly_to_df_falsy:
  "\<not> truthy (dict_get kvs ''hourly'' (JObj [])) \<Longrightarrow>
     hourly_to_df parse (JObj kvs) c = Inr empty_frame"
  by (simp add: hourly_to_df_def)

lemma hourly_to_df_aligned_rows:
  assumes "dict_get kvs ''hourly'' (JObj []) = JObj hs" "hs \<noteq> []"
    and "dict_get hs ''time'' (JArr []) = JArr ts"
    and "list_all (\<lambda>kv. fst kv = ''time'' \<or> aligned (length ts) (snd kv)) hs"
  shows "\<exists>f. hourly_to_df parse (JObj kvs) c = Inr f
           \<and> map time (rows f) = map parse ts
           \<and> map city (rows f) = replicate (length ts) c"
proof -
  define pre :: "prerow list" where "pre = map (\<lambda>t. (t, [])) (map parse ts)"
  have "list_all (\<lambda>kv. fst kv = ''time'' \<or> aligned (length pre) (snd kv)) hs"
    using assms(4) by (simp add: pre_def)
  from assign_all_aligned [OF this, of "[]"] obtain cols' rs'
    where a: "assign_all hs ([], pre) = Inr (cols', rs')"
      and f: "map fst rs' = map fst pre"
    by blast
  have f': "map fst rs' = map parse ts"
    using f by (simp add: comp_def pre_def)
  then have l: "length rs' = length ts"
    using map_eq_imp_length_eq by fastforce
  have t: "map time (map (with_city c) rs') = map fst rs'"
    by (simp add: with_city_def comp_def)
  have ci: "map city (map (with_city c) rs') = replicate (length rs') c"
    by (simp add: with_city_def comp_def map_replicate_const)
  show ?thesis
    using assms(1,2,3) a f' l t ci
    by (simp add: hourly_to_df_def pre_def)
qed

text \<open>
  Claim C7, as the code has it. On a payload that is an object, \<^verbatim>\<open>_hourly_to_df\<close> returns
  the table without rows when the hourly block is missing or falsy; and when the block
  is a non-empty object whose time entry is an array and whose other fields are scalars
  or arrays of the length of the time array, it returns one row per time entry, with
  the parsed timestamp or \<^verbatim>\<open>NaT\<close> where the entry does not parse, and the city label on
  every row. Nothing is claimed for the other shapes.
\<close>

theorem hourly_to_df_aligned:
  "(\<not> truthy (dict_get kvs ''hourly'' (JObj [])) \<longrightarrow>
      hourly_to_df parse (JObj kvs) c = Inr empty_frame \<and> rows empty_frame = [])
   \<and> (dict_get kvs ''hourly'' (JObj []) = JObj hs \<and> hs \<noteq> []
        \<and> dict_get hs ''time'' (JArr []) = JArr ts
        \<and> list_all (\<lambda>kv. fst kv = ''time'' \<or> aligned (length ts) (snd kv)) hs \<longrightarrow>
      (\<exists>f. hourly_to_df parse (JObj kvs) c = Inr f
         \<and> map time (rows f) = map parse ts
         \<and> map city (rows f) = replicate (length ts) c))"
  using hourly_to_df_falsy [of kvs parse c] hourly_to_df_aligned_rows [of kvs hs ts parse c]
  by (simp add: empty_frame_def)

theorem hourly_to_df_aligned_witness:
  "hourly_to_df parse_ns (JObj []) ''Austin'' = Inr empty_frame
   \<and> parse_ns (JStr ''n/a'') = None
   \<and> map time (rows (projr (hourly_to_df parse_ns payload_bad_time ''Austin''))) = [Some 0, None]
   \<and> map city (rows (projr (hourly_to_df parse_ns payload_bad_time ''Austin''))) = [''Austin'', ''Austin'']
   \<and> \<not> isl (hourly_to_df parse_ns payload_bad_time ''Austin'')"
proof -
  have e: "\<not> truthy (dict_get [] ''hourly'' (JObj []))"
    by code_simp
  have h: "dict_get [(''hourly'', JObj [(''time'', JArr [JNum 0, JStr ''n/a'']),
                              (''temperature_2m'', JArr [JNum 10, JNum 20])])] ''hourly'' (JObj [])
           = JObj [(''time'', JArr [JNum 0, JStr ''n/a'']),
                   (''temperature_2m'', JArr [JNum 10, JNum 20])]"
    by code_simp
  have t: "dict_get [(''time'', JArr [JNum 0, JStr ''n/a'']),
                   (''temperature_2m'', JArr [JNum 10, JNum 20])] ''time'' (JArr [])
           = JArr [JNum 0, JStr ''n/a'']"
    by code_simp
  have a: "list_all (\<lambda>kv. fst kv = ''time'' \<or> aligned (length [JNum 0, JStr ''n/a'']) (snd kv))
             [(''time'', JArr [JNum 0, JStr ''n/a'']),
              (''temperature_2m'', JArr [JNum 10, JNum 20])]"
    by code_simp
  have p: "map parse_ns [JNum 0, JStr ''n/a''] = [Some 0, None]"
    by code_simp
  have n: "parse_ns (JStr ''n/a'') = None"
    by code_simp
  from hourly_to_df_aligned [of "[]" parse_ns "''Austin''"] e
  have 1: "hourly_to_df parse_ns (JObj []) ''Austin'' = Inr empty_frame"
    by simp
  from hourly_to_df_aligned [where parse = parse_ns and c = "''Austin''"
      and ts = "[JNum 0, JStr ''n/a'']"
      and hs = "[(''time'', JArr [JNum 0, JStr ''n/a'']),
                 (''temperature_2m'', JArr [JNum 10, JNum 20])]"
      and kvs = "[(''hourly'', JObj [(''time'', JArr [JNum 0, JStr ''n/a'']),
                                     (''temperature_2m'', JArr [JNum 10, JNum 20])])]"] h t a
  obtain f where "hourly_to_df parse_ns payload_bad_time ''Austin'' = Inr f"
    "map time (rows f) = map parse_ns [JNum 0, JStr ''n/a'']"
    "map city (rows f) = replicate (length [JNum 0, JStr ''n/a'']) ''Austin''"
    unfolding payload_bad_time_def by blast
  then show ?thesis using 1 p n by simp
qed

text \<open>
  The claim C7 as stated fails: a JSON payload whose temperature array is shorter than
  its time array makes the column assignment raise \<^verbatim>\<open>ValueError\<close>.
\<close>

theorem hourly_to_df_mismatch_counterexample:
  "hourly_to_df parse_ns payload_mismatch ''Austin'' = Inl ValueError"
  by code_simp

section \<open>Properties of the combination\<close>

subsection \<open>Keeping the first row of every key\<close>

lemma first_seen_filter:
  "filter (\<lambda>x. f x = k) (first_seen f seen xs) =
     (if k \<in> set seen then []
      else (case find (\<lambda>x. f x = k) xs of None \<Rightarrow> [] | Some x \<Rightarrow> [x]))"
  by (induction xs arbitrary: seen) auto

lemma first_seen_subset: "set (first_seen f seen xs) \<subseteq> set xs"
  by (induction xs arbitrary: seen) auto

lemma first_seen_keys: "f ` set (first_seen f seen xs) = f ` set xs - set seen"
proof (induction xs arbitrary: seen)
  case Nil
  then show ?case by simp
next
  case (Cons x xs)
  show ?case
  proof (cases "f x \<in> set seen")
    case True
    with Cons [of seen] show ?thesis by auto
  next
    case False
    with Cons [of "f x # seen"] show ?thesis by auto
  qed
qed

lemma first_seen_fresh: "x \<in> set (first_seen f seen xs) \<Longrightarrow> f x \<notin> set seen"
  using first_seen_keys [of f seen xs] by blast

lemma first_seen_distinct: "distinct (map f (first_seen f seen xs))"
proof (induction xs arbitrary: seen)
  case Nil
  then show ?case by simp
next
  case (Cons x xs)
  have "f x \<notin> f ` set (first_seen f (f x # seen) xs)"
    using first_seen_keys [of f "f x # seen" xs] by simp
  with Cons show ?case by simp
qed

subsection \<open>Rows through concatenation\<close>

lemma key_reindex [simp]: "key (reindex cols r) = key r"
  by (simp add: key_def reindex_def)

lemma city_reindex [simp]: "city (reindex cols r) = city r"
  by (simp add: reindex_def)

lemma time_reindex [simp]: "time (reindex cols r) = time r"
  by (simp add: reindex_def)

lemma map_of_tabulate: "map_of (map (\<lambda>c. (c, g c)) cs) k = (if k \<in> set cs then Some (g k) else None)"
  by (induction cs) auto

lemma cell_reindex:
  "col \<in> set (data_columns cols) \<Longrightarrow> cell (reindex cols r) col = cell r col"
  by (simp add: cell_def reindex_def map_of_tabulate)

lemma set_fold_add_col: "set (fold add_col xs acc) = set xs \<union> set acc"
  by (induction xs arbitrary: acc) (auto simp: add_col_def)

lemma set_union_columns: "set (union_columns dfs) = (\<Union>f \<in> set dfs. set (columns f))"
  by (simp add: union_columns_def set_fold_add_col)

lemma find_map_key:
  "find (\<lambda>r. key r = k) (map (reindex cols) xs) =
     map_option (reindex cols) (find (\<lambda>r. key r = k) xs)"
  by (induction xs) auto

lemma find_in_set:
  "x \<in> set xs \<Longrightarrow> P x \<Longrightarrow> \<exists>y. find P xs = Some y \<and> P y \<and> y \<in> set xs"
  by (induction xs) auto

subsection \<open>Tables of one payload\<close>

lemma hourly_to_df_rows:
  assumes "hourly_to_df parse raw c = Inr f"
  shows "rows f = []
       \<or> (''time'' \<in> set (columns f) \<and> ''city'' \<in> set (columns f)
           \<and> (\<forall>r \<in> set (rows f). city r = c))"
proof (cases raw)
  case (JObj kvs)
  show ?thesis
  proof (cases "truthy (dict_get kvs ''hourly'' (JObj []))")
    case False
    then have "f = empty_frame"
      using assms JObj by (simp add: hourly_to_df_def)
    then show ?thesis by (simp add: empty_frame_def)
  next
    case True
    then obtain cols rs
      where "f = \<lparr>columns = add_col ''city'' (''time'' # cols), rows = map (with_city c) rs\<rparr>"
      using assms JObj
      by (auto simp: hourly_to_df_def split: json.splits sum.splits prod.splits)
    then show ?thesis by (auto simp: add_col_def with_city_def)
  qed
qed (use assms in \<open>simp_all add: hourly_to_df_def\<close>)

lemma hourly_to_df_city:
  assumes "hourly_to_df parse raw c = Inr f" "r \<in> set (rows f)"
  shows "city r = c"
  using hourly_to_df_rows [OF assms(1)] assms(2) by auto

lemma hourly_to_df_key_columns:
  assumes "hourly_to_df parse raw c = Inr f" "rows f \<noteq> []"
  shows "''time'' \<in> set (columns f)" "''city'' \<in> set (columns f)"
  using hourly_to_df_rows [OF assms(1)] assms(2) by auto

lemma hourly_to_df_truthy:
  assumes "hourly_to_df parse raw c = Inr f" "rows f \<noteq> []"
  shows "truthy raw"
proof (cases raw)
  case (JObj kvs)
  have "kvs \<noteq> []"
  proof
    assume "kvs = []"
    then have "hourly_to_df parse raw c = Inr empty_frame"
      using JObj by (simp add: hourly_to_df_def dict_get_def)
    with assms(1) have "f = empty_frame" by simp
    with assms(2) show False by (simp add: empty_frame_def)
  qed
  with JObj show ?thesis by simp
qed (use assms in \<open>simp_all add: hourly_to_df_def\<close>)

lemma payload_frames_cases:
  assumes "payload_frames parse raw c = Inr dfs"
  shows "dfs = [] \<or> (\<exists>f. dfs = [f] \<and> hourly_to_df parse raw c = Inr f)"
  using assms
  by (auto simp: payload_frames_def and_then_def split: if_splits sum.splits)

lemma payload_frames_city:
  assumes "payload_frames parse raw c = Inr dfs" "f \<in> set dfs" "r \<in> set (rows f)"
  shows "city r = c"
  using payload_frames_cases [OF assms(1)] assms(2,3) hourly_to_df_city by fastforce

subsection \<open>The combined table\<close>

text \<open>What \<^verbatim>\<open>combine_hourly\<close> returns, when it returns.\<close>

lemma combine_hourly_content:
  assumes "combine_hourly parse ra rf c = Inr out"
  shows "\<exists>da df. payload_frames parse ra c = Inr da \<and> payload_frames parse rf c = Inr df
           \<and> (\<forall>f \<in> set (da @ df). \<forall>r \<in> set (rows f). city r = c)
           \<and> rows out = sort_key (\<lambda>r. time_rank (time r))
                 (first_seen key [] (map (reindex (columns out)) (concat (map rows (da @ df)))))"
proof -
  obtain da where da: "payload_frames parse ra c = Inr da"
    using assms by (auto simp: combine_hourly_def and_then_def split: sum.splits)
  obtain df where df: "payload_frames parse rf c = Inr df"
    using assms da by (auto simp: combine_hourly_def and_then_def split: sum.splits)
  have ci: "\<forall>f \<in> set (da @ df). \<forall>r \<in> set (rows f). city r = c"
    using payload_frames_city [OF da] payload_frames_city [OF df] by auto
  show ?thesis
  proof (cases "da @ df = []")
    case True
    then have "out = empty_frame"
      using assms da df by (simp add: combine_hourly_def and_then_def)
    then have "rows out = sort_key (\<lambda>r. time_rank (time r))
                 (first_seen key [] (map (reindex (columns out)) (concat (map rows (da @ df)))))"
      using True by (simp add: empty_frame_def)
    with da df ci show ?thesis by blast
  next
    case False
    define cat where "cat = \<lparr>columns = union_columns (da @ df),
        rows = map (reindex (union_columns (da @ df))) (concat (map rows (da @ df)))\<rparr>"
    have c1: "pd_concat (da @ df) = Inr cat"
      using False by (simp add: pd_concat_def cat_def del: append_is_Nil_conv)
    from assms da df False c1
    have s: "and_then (drop_duplicates cat) sort_values_time = Inr out"
      by (simp add: combine_hourly_def and_then_def del: append_is_Nil_conv)
    then obtain dd where dd: "drop_duplicates cat = Inr dd" "sort_values_time dd = Inr out"
      by (auto simp: and_then_def split: sum.splits)
    have tc: "columns dd \<noteq> []"
      using dd(2) by (auto simp: sort_values_time_def split: if_splits)
    have d1: "columns dd = columns cat" "rows dd = first_seen key [] (rows cat)"
      using dd(1) tc by (auto simp: drop_duplicates_def df_empty_def split: if_splits)
    have o: "columns out = columns dd"
      "rows out = sort_key (\<lambda>r. time_rank (time r)) (rows dd)"
      using dd(2) by (auto simp: sort_values_time_def split: if_splits)
    have "rows out = sort_key (\<lambda>r. time_rank (time r))
                 (first_seen key [] (map (reindex (columns out)) (concat (map rows (da @ df)))))"
      using o d1 by (simp add: cat_def)
    with da df ci show ?thesis by blast
  qed
qed

lemma combine_hourly_rows:
  assumes "combine_hourly parse ra rf c = Inr out"
  shows "\<exists>dfs :: frame list. (\<forall>f \<in> set dfs. \<forall>r \<in> set (rows f). city r = c)
           \<and> rows out = sort_key (\<lambda>r. time_rank (time r))
                 (first_seen key [] (map (reindex (columns out)) (concat (map rows dfs))))"
  using combine_hourly_content [OF assms] by blast

lemma combine_hourly_city:
  assumes "combine_hourly parse ra rf c = Inr out" "r \<in> set (rows out)"
  shows "city r = c"
proof -
  obtain dfs :: "frame list" where c: "\<forall>f \<in> set dfs. \<forall>r \<in> set (rows f). city r = c"
    and r: "rows out = sort_key (\<lambda>r. time_rank (time r))
                 (first_seen key [] (map (reindex (columns out)) (concat (map rows dfs))))"
    using combine_hourly_rows [OF assms(1)] by blast
  define xs where "xs = map (reindex (columns out)) (concat (map rows dfs))"
  have "set (rows out) = set (first_seen key [] xs)"
    by (simp add: r xs_def)
  then have "r \<in> set xs"
    using assms(2) first_seen_subset [of key "[]" xs] by blast
  then show ?thesis using c by (auto simp: xs_def)
qed

lemma combine_hourly_sorted_time:
  assumes "combine_hourly parse ra rf c = Inr out"
  shows "sorted (map (\<lambda>r. time_rank (time r)) (rows out))"
proof -
  obtain xs where "rows out = sort_key (\<lambda>r. time_rank (time r)) xs"
    using combine_hourly_rows [OF assms] by blast
  then show ?thesis by (simp only: sorted_sort_key)
qed

lemma combine_hourly_distinct:
  assumes "combine_hourly parse ra rf c = Inr out"
  shows "distinct (map key (rows out))"
proof -
  obtain xs where r: "rows out = sort_key (\<lambda>r. time_rank (time r)) (first_seen key [] xs)"
    using combine_hourly_rows [OF assms] by blast
  have "mset (map key (rows out)) = mset (map key (first_seen key [] xs))"
    by (simp add: r)
  then show ?thesis
    using first_seen_distinct [of key "[]" xs] mset_eq_imp_distinct_iff by blast
qed

lemma sorted_const_city:
  assumes "\<forall>r \<in> set xs. city r = c"
  shows "sorted (map city_time_rank xs) = sorted (map (\<lambda>r. time_rank (time r)) xs)"
  using assms by (induction xs) (auto simp: city_time_rank_def)

lemma merge_hourly_rows:
  assumes "merge_hourly tables = Inr h"
  shows "rows h = sort_key city_time_rank (map (reindex (columns h)) (concat (map rows tables)))"
  using assms
  by (auto simp: merge_hourly_def and_then_def pd_concat_def sort_values_city_time_def
      split: sum.splits if_splits)

section \<open>Deduplication and order of the hourly tables\<close>

lemma find_append_Some: "find P xs = Some x \<Longrightarrow> find P (xs @ ys) = Some x"
  by (induction xs) (auto split: if_splits)

lemma combine_hourly_two:
  assumes "hourly_to_df parse raw_archive c = Inr a" "rows a \<noteq> []"
    and "hourly_to_df parse raw_forecast c = Inr f" "rows f \<noteq> []"
  shows "\<exists>out. combine_hourly parse raw_archive raw_forecast c = Inr out
           \<and> set (columns a) \<subseteq> set (columns out)
           \<and> rows out = sort_key (\<lambda>r. time_rank (time r))
                 (first_seen key [] (map (reindex (columns out)) (rows a @ rows f)))"
proof -
  have ta: "truthy raw_archive" and tf: "truthy raw_forecast"
    using hourly_to_df_truthy assms by blast+
  have pa: "payload_frames parse raw_archive c = Inr [a]"
    and pf: "payload_frames parse raw_forecast c = Inr [f]"
    using ta tf assms by (simp_all add: payload_frames_def and_then_def)
  define u where "u = union_columns [a, f]"
  define cat where "cat = \<lparr>columns = u, rows = map (reindex u) (rows a @ rows f)\<rparr>"
  have su: "set u = set (columns a) \<union> set (columns f)"
    by (simp add: u_def set_union_columns)
  have k: "''time'' \<in> set u" "''city'' \<in> set u"
    using hourly_to_df_key_columns [OF assms(1,2)] su by auto
  have c1: "pd_concat [a, f] = Inr cat"
    by (simp add: pd_concat_def cat_def u_def)
  have ne: "\<not> df_empty cat"
    using assms(2) k by (auto simp: df_empty_def cat_def)
  have c2: "drop_duplicates cat = Inr (cat\<lparr>rows := first_seen key [] (rows cat)\<rparr>)"
    using ne k by (simp add: drop_duplicates_def cat_def)
  have c3: "sort_values_time (cat\<lparr>rows := first_seen key [] (rows cat)\<rparr>) =
      Inr \<lparr>columns = u, rows = sort_key (\<lambda>r. time_rank (time r)) (first_seen key [] (rows cat))\<rparr>"
    using k by (simp add: sort_values_time_def cat_def)
  have "combine_hourly parse raw_archive raw_forecast c =
      Inr \<lparr>columns = u, rows = sort_key (\<lambda>r. time_rank (time r)) (first_seen key [] (rows cat))\<rparr>"
    using pa pf c1 c2 c3 by (simp add: combine_hourly_def and_then_def)
  then show ?thesis
    using su by (simp add: cat_def)
qed

text \<open>
  Claim C1: when the tables of the archive payload and of the forecast payload of one
  location both hold a row of one key, \<^verbatim>\<open>combine_hourly\<close> returns a table with exactly one
  row of that key, and it is the first row of that key in the archive table: its key is
  the shared one and its cells are the cells of the archive row.
\<close>

theorem combine_hourly_archive_wins:
  assumes "hourly_to_df parse raw_archive c = Inr a"
    and "hourly_to_df parse raw_forecast c = Inr f"
    and "x \<in> set (rows a)" and "y \<in> set (rows f)" and "key x = key y"
  shows "\<exists>out r0. combine_hourly parse raw_archive raw_forecast c = Inr out
           \<and> find (\<lambda>r. key r = key x) (rows a) = Some r0
           \<and> filter (\<lambda>r. key r = key x) (rows out) = [reindex (columns out) r0]
           \<and> key (reindex (columns out) r0) = key y
           \<and> list_all (\<lambda>col. cell (reindex (columns out) r0) col = cell r0 col)
               (data_columns (columns a))"
proof -
  have na: "rows a \<noteq> []" and nf: "rows f \<noteq> []"
    using assms(3,4) by auto
  obtain out where o: "combine_hourly parse raw_archive raw_forecast c = Inr out"
    and sc: "set (columns a) \<subseteq> set (columns out)"
    and r: "rows out = sort_key (\<lambda>r. time_rank (time r))
                 (first_seen key [] (map (reindex (columns out)) (rows a @ rows f)))"
    using combine_hourly_two [OF assms(1) na assms(2) nf] by blast
  obtain r0 where f0: "find (\<lambda>r. key r = key x) (rows a) = Some r0" and k0: "key r0 = key x"
    using find_in_set [of x "rows a" "\<lambda>r. key r = key x"] assms(3) by auto
  have fa: "find (\<lambda>r. key r = key x) (map (reindex (columns out)) (rows a @ rows f))
            = Some (reindex (columns out) r0)"
    using f0 by (simp add: find_map_key find_append_Some)
  have "filter (\<lambda>r. key r = key x) (rows out)
        = sort_key (\<lambda>r. time_rank (time r))
            (filter (\<lambda>r. key r = key x)
               (first_seen key [] (map (reindex (columns out)) (rows a @ rows f))))"
    unfolding r by (rule filter_sort)
  also have "\<dots> = [reindex (columns out) r0]"
    unfolding first_seen_filter fa by simp
  finally have fl: "filter (\<lambda>r. key r = key x) (rows out) = [reindex (columns out) r0]" .
  have dc: "set (data_columns (columns a)) \<subseteq> set (data_columns (columns out))"
    using sc by (auto simp: data_columns_def)
  have ce: "list_all (\<lambda>col. cell (reindex (columns out) r0) col = cell r0 col)
               (data_columns (columns a))"
    unfolding list_all_iff using dc cell_reindex by blast
  show ?thesis
    using o f0 fl k0 assms(5) ce by simp
qed

theorem combine_hourly_archive_wins_witness:
  "hourly_to_df parse_ns payload_archive ''Austin'' = Inr frame_archive
   \<and> hourly_to_df parse_ns payload_forecast ''Austin'' = Inr frame_forecast
   \<and> key (rows frame_archive ! 0) = key (rows frame_forecast ! 0)
   \<and> cell (rows frame_archive ! 0) ''temperature_2m'' = JNum 11
   \<and> cell (rows frame_forecast ! 0) ''temperature_2m'' = JNum 99
   \<and> map (\<lambda>r. cell r ''temperature_2m'')
        (filter (\<lambda>r. key r = (''Austin'', Some 3600000000000))
           (rows (projr (combine_hourly parse_ns payload_archive payload_forecast ''Austin''))))
      = [JNum 11]"
proof -
  have a: "hourly_to_df parse_ns payload_archive ''Austin'' = Inr frame_archive"
    and f: "hourly_to_df parse_ns payload_forecast ''Austin'' = Inr frame_forecast"
    by code_simp+
  have x: "rows frame_archive ! 0 \<in> set (rows frame_archive)"
    and y: "rows frame_forecast ! 0 \<in> set (rows frame_forecast)"
    by (simp_all add: frame_archive_def frame_forecast_def)
  have k: "key (rows frame_archive ! 0) = key (rows frame_forecast ! 0)"
    by (simp add: frame_archive_def frame_forecast_def key_def)
  have kx: "key (rows frame_archive ! 0) = (''Austin'', Some 3600000000000)"
    by (simp add: frame_archive_def key_def)
  have fi: "find (\<lambda>r. key r = (''Austin'', Some 3600000000000)) (rows frame_archive)
            = Some (rows frame_archive ! 0)"
    by (simp add: frame_archive_def key_def)
  have dc: "data_columns (columns frame_archive) = [''temperature_2m'']"
    by (simp add: frame_archive_def data_columns_def)
  have c1: "cell (rows frame_archive ! 0) ''temperature_2m'' = JNum 11"
    and c2: "cell (rows frame_forecast ! 0) ''temperature_2m'' = JNum 99"
    by (simp_all add: frame_archive_def frame_forecast_def cell_def)
  obtain out r0 where o: "combine_hourly parse_ns payload_archive payload_forecast ''Austin'' = Inr out"
    and o1: "find (\<lambda>r. key r = key (rows frame_archive ! 0)) (rows frame_archive) = Some r0"
    and o2: "filter (\<lambda>r. key r = key (rows frame_archive ! 0)) (rows out) = [reindex (columns out) r0]"
    and o3: "list_all (\<lambda>col. cell (reindex (columns out) r0) col = cell r0 col)
               (data_columns (columns frame_archive))"
    using combine_hourly_archive_wins [OF a f x y k] by blast
  have r0: "r0 = rows frame_archive ! 0"
    using o1 fi unfolding kx by simp
  have fl: "filter (\<lambda>r. key r = (''Austin'', Some 3600000000000)) (rows out)
            = [reindex (columns out) r0]"
    using o2 unfolding kx .
  have "cell (reindex (columns out) r0) ''temperature_2m'' = JNum 11"
    using o3 c1 unfolding dc r0 by simp
  then have "map (\<lambda>r. cell r ''temperature_2m'')
        (filter (\<lambda>r. key r = (''Austin'', Some 3600000000000))
           (rows (projr (combine_hourly parse_ns payload_archive payload_forecast ''Austin''))))
      = [JNum 11]"
    unfolding o by (simp add: fl)
  then show ?thesis
    using a f k c1 c2 by blast
qed

lemma merge_hourly_columns:
  assumes "merge_hourly tables = Inr h"
  shows "columns h = union_columns tables"
  using assms
  by (auto simp: merge_hourly_def and_then_def pd_concat_def sort_values_city_time_def
      split: sum.splits if_splits)

lemma merge_hourly_total:
  assumes "tables \<noteq> []" "''city'' \<in> set (union_columns tables)"
    "''time'' \<in> set (union_columns tables)"
  shows "\<exists>h. merge_hourly tables = Inr h"
  using assms
  by (simp add: merge_hourly_def and_then_def pd_concat_def sort_values_city_time_def)

text \<open>
  Claim C2: the table that \<^verbatim>\<open>combine_hourly\<close> returns holds the rows of the archive table
  followed by those of the forecast table, the first of every key, sorted by time with
  the missing timestamps last; since all its rows carry one city it is sorted by
  (city, time). The merge of the tables of all locations returns a table whenever there
  is a table and the key columns exist; it holds all the rows of all the tables, sorted
  by (city, time).
\<close>

theorem hourly_tables_sorted:
  "(combine_hourly parse raw_archive raw_forecast c = Inr out \<longrightarrow>
      sorted (map (\<lambda>r. time_rank (time r)) (rows out))
      \<and> sorted (map city_time_rank (rows out))
      \<and> (\<exists>da df. payload_frames parse raw_archive c = Inr da
            \<and> payload_frames parse raw_forecast c = Inr df
            \<and> rows out = sort_key (\<lambda>r. time_rank (time r))
                 (first_seen key [] (map (reindex (columns out)) (concat (map rows (da @ df)))))))
   \<and> (merge_hourly tables = Inr h \<longrightarrow>
        sorted (map city_time_rank (rows h))
        \<and> columns h = union_columns tables
        \<and> rows h = sort_key city_time_rank (map (reindex (columns h)) (concat (map rows tables)))
        \<and> mset (rows h) = mset (map (reindex (columns h)) (concat (map rows tables))))
   \<and> (tables \<noteq> [] \<and> ''city'' \<in> set (union_columns tables)
        \<and> ''time'' \<in> set (union_columns tables) \<longrightarrow> (\<exists>h'. merge_hourly tables = Inr h'))"
proof (intro conjI impI)
  assume o: "combine_hourly parse raw_archive raw_forecast c = Inr out"
  show t: "sorted (map (\<lambda>r. time_rank (time r)) (rows out))"
    using combine_hourly_sorted_time [OF o] .
  have "\<forall>r \<in> set (rows out). city r = c"
    using combine_hourly_city [OF o] by blast
  from sorted_const_city [OF this] t show "sorted (map city_time_rank (rows out))"
    by simp
  show "\<exists>da df. payload_frames parse raw_archive c = Inr da
            \<and> payload_frames parse raw_forecast c = Inr df
            \<and> rows out = sort_key (\<lambda>r. time_rank (time r))
                 (first_seen key [] (map (reindex (columns out)) (concat (map rows (da @ df)))))"
    using combine_hourly_content [OF o] by blast
next
  assume m: "merge_hourly tables = Inr h"
  show "sorted (map city_time_rank (rows h))"
    by (subst merge_hourly_rows [OF m]) (simp only: sorted_sort_key)
  show "columns h = union_columns tables"
    using merge_hourly_columns [OF m] .
  show r: "rows h = sort_key city_time_rank (map (reindex (columns h)) (concat (map rows tables)))"
    using merge_hourly_rows [OF m] .
  show "mset (rows h) = mset (map (reindex (columns h)) (concat (map rows tables)))"
    by (subst r) simp
next
  assume "tables \<noteq> [] \<and> ''city'' \<in> set (union_columns tables)
        \<and> ''time'' \<in> set (union_columns tables)"
  then show "\<exists>h'. merge_hourly tables = Inr h'"
    using merge_hourly_total by blast
qed

theorem hourly_tables_sorted_witness:
  "combine_hourly parse_ns payload_archive payload_forecast ''Austin'' = Inr frame_combined
   \<and> payload_frames parse_ns payload_archive ''Austin'' = Inr [frame_archive]
   \<and> payload_frames parse_ns payload_forecast ''Austin'' = Inr [frame_forecast]
   \<and> merge_hourly [frame_forecast, frame_archive] = Inr frame_merged
   \<and> map city_time_rank (rows frame_combined)
       = [(''Austin'', 0, 0), (''Austin'', 0, 3600000000000), (''Austin'', 0, 7200000000000)]
   \<and> map city_time_rank (rows frame_merged)
       = [(''Austin'', 0, 0), (''Austin'', 0, 3600000000000), (''Austin'', 0, 3600000000000),
          (''Austin'', 0, 7200000000000)]
   \<and> sorted (map city_time_rank (rows frame_combined))
   \<and> sorted (map city_time_rank (rows frame_merged))
   \<and> mset (rows frame_merged) = mset (rows frame_forecast @ rows frame_archive)"
proof -
  have c: "combine_hourly parse_ns payload_archive payload_forecast ''Austin'' = Inr frame_combined"
    by code_simp
  have pa: "payload_frames parse_ns payload_archive ''Austin'' = Inr [frame_archive]"
    and pf: "payload_frames parse_ns payload_forecast ''Austin'' = Inr [frame_forecast]"
    by code_simp+
  have m: "merge_hourly [frame_forecast, frame_archive] = Inr frame_merged"
    by code_simp
  have r: "map city_time_rank (rows frame_combined)
       = [(''Austin'', 0, 0), (''Austin'', 0, 3600000000000), (''Austin'', 0, 7200000000000)]"
    by code_simp
  have r': "map city_time_rank (rows frame_merged)
       = [(''Austin'', 0, 0), (''Austin'', 0, 3600000000000), (''Austin'', 0, 3600000000000),
          (''Austin'', 0, 7200000000000)]"
    by code_simp
  have x: "map (reindex (columns frame_merged)) (concat (map rows [frame_forecast, frame_archive]))
           = rows frame_forecast @ rows frame_archive"
    by code_simp
  note t = hourly_tables_sorted [of parse_ns payload_archive payload_forecast "''Austin''"
      frame_combined "[frame_forecast, frame_archive]" frame_merged]
  have s1: "sorted (map city_time_rank (rows frame_combined))"
    using t c by blast
  have s2: "sorted (map city_time_rank (rows frame_merged))"
    using t m by blast
  have ms: "mset (rows frame_merged) = mset (rows frame_forecast @ rows frame_archive)"
    using t m unfolding x by blast
  show ?thesis
    using c pa pf m r r' s1 s2 ms by blast
qed

section \<open>Keys of the merged table\<close>

lemma keys_of_table:
  assumes "\<forall>r \<in> set rs. city r = c"
  shows "set (map key rs) = Pair c ` set (map time rs)"
  using assms by (auto simp: key_def image_iff)

lemma combined_keys:
  assumes "combined parse w t"
  shows "set (map key (rows t)) = Pair (label w) ` set (times_of t)"
    and "distinct (map key (rows t))"
proof -
  have c: "combine_hourly parse (fst w) (fst (snd w)) (label w) = Inr t"
    using assms by (simp add: combined_def)
  have "\<forall>r \<in> set (rows t). city r = label w"
    using combine_hourly_city [OF c] by blast
  from keys_of_table [OF this] show "set (map key (rows t)) = Pair (label w) ` set (times_of t)"
    by (simp add: times_of_def)
  show "distinct (map key (rows t))"
    using combine_hourly_distinct [OF c] .
qed

lemma pair_image_disjoint:
  "Pair c ` A \<inter> Pair c' ` B = {} \<longleftrightarrow> (c = c' \<longrightarrow> A \<inter> B = {})"
  by auto

lemma distinct_keys_runs:
  assumes "list_all (\<lambda>wt. combined parse (fst wt) (snd wt)) runs"
  shows "distinct (concat (map (\<lambda>wt. map key (rows (snd wt))) runs))
         \<longleftrightarrow> no_shared_time (map (\<lambda>wt. (label (fst wt), times_of (snd wt))) runs)"
  using assms
proof (induction runs)
  case Nil
  then show ?case by simp
next
  case (Cons wt runs)
  have c: "combined parse (fst wt) (snd wt)"
    and rest: "list_all (\<lambda>wt. combined parse (fst wt) (snd wt)) runs"
    using Cons.prems by simp_all
  have all: "\<forall>q \<in> set runs. combined parse (fst q) (snd q)"
    using rest by (simp add: list_all_iff)
  have k: "set (map key (rows (snd wt))) = Pair (label (fst wt)) ` set (times_of (snd wt))"
    and d: "distinct (map key (rows (snd wt)))"
    using combined_keys [OF c] by blast+
  have "set (map key (rows (snd wt))) \<inter> set (concat (map (\<lambda>wt. map key (rows (snd wt))) runs)) = {}
        \<longleftrightarrow> (\<forall>q \<in> set runs. set (map key (rows (snd wt))) \<inter> set (map key (rows (snd q))) = {})"
    by auto
  also have "\<dots> \<longleftrightarrow> (\<forall>q \<in> set runs. label (fst wt) = label (fst q) \<longrightarrow>
                           set (times_of (snd wt)) \<inter> set (times_of (snd q)) = {})"
  proof (intro ball_cong refl)
    fix q assume "q \<in> set runs"
    then have "set (map key (rows (snd q))) = Pair (label (fst q)) ` set (times_of (snd q))"
      using all combined_keys(1) by blast
    then show "set (map key (rows (snd wt))) \<inter> set (map key (rows (snd q))) = {}
        \<longleftrightarrow> (label (fst wt) = label (fst q) \<longrightarrow>
              set (times_of (snd wt)) \<inter> set (times_of (snd q)) = {})"
      unfolding k by (simp only: pair_image_disjoint)
  qed
  finally have x: "set (map key (rows (snd wt))) \<inter> set (concat (map (\<lambda>wt. map key (rows (snd wt))) runs)) = {}
        \<longleftrightarrow> (\<forall>q \<in> set runs. label (fst wt) = label (fst q) \<longrightarrow>
                           set (times_of (snd wt)) \<inter> set (times_of (snd q)) = {})" .
  have "distinct (concat (map (\<lambda>wt. map key (rows (snd wt))) (wt # runs)))
        \<longleftrightarrow> distinct (concat (map (\<lambda>wt. map key (rows (snd wt))) runs))
            \<and> set (map key (rows (snd wt))) \<inter> set (concat (map (\<lambda>wt. map key (rows (snd wt))) runs)) = {}"
    using d by (simp del: set_map set_concat)
  then show ?case
    unfolding x Cons.IH [OF rest] by (auto simp: image_iff)
qed

lemma distinct_labels_no_shared_time:
  "distinct (map fst ps) \<Longrightarrow> no_shared_time ps"
  by (induction ps) (auto simp: image_iff)

lemma merge_hourly_keys:
  assumes "merge_hourly tables = Inr h"
  shows "mset (map key (rows h)) = mset (concat (map (\<lambda>t. map key (rows t)) tables))"
proof -
  have "mset (rows h) = mset (map (reindex (columns h)) (concat (map rows tables)))"
    by (subst merge_hourly_rows [OF assms]) simp
  then have "mset (map key (rows h)) = mset (map key (map (reindex (columns h)) (concat (map rows tables))))"
    by (simp only: mset_map)
  also have "map key (map (reindex (columns h)) (concat (map rows tables)))
             = map key (concat (map rows tables))"
    by (simp add: comp_def)
  also have "map key (concat (map rows tables)) = concat (map (\<lambda>t. map key (rows t)) tables)"
    by (simp add: map_concat comp_def)
  finally show ?thesis .
qed

text \<open>
  Claim C10, as the code has it. The merge of the tables of all locations keeps every
  row of every table (no deduplication there); each table has unique keys from
  \<^verbatim>\<open>combine_hourly\<close>. So the canonical table has unique (city, time) keys exactly when no
  two tables of the same city label share a timestamp: pairwise distinct labels are
  enough for that, and they are not necessary.
\<close>

theorem merge_hourly_unique_keys:
  assumes "list_all (\<lambda>wt. combined parse (fst wt) (snd wt)) runs"
    and "merge_hourly (map snd runs) = Inr h"
  shows "mset (map key (rows h)) = mset (concat (map (\<lambda>wt. map key (rows (snd wt))) runs))
       \<and> (distinct (map key (rows h))
            \<longleftrightarrow> no_shared_time (map (\<lambda>wt. (label (fst wt), times_of (snd wt))) runs))
       \<and> (distinct (map (\<lambda>wt. label (fst wt)) runs) \<longrightarrow> distinct (map key (rows h)))"
proof -
  have m: "mset (map key (rows h)) = mset (concat (map (\<lambda>wt. map key (rows (snd wt))) runs))"
    using merge_hourly_keys [OF assms(2)] by (simp add: comp_def)
  have d: "distinct (map key (rows h))
        \<longleftrightarrow> distinct (concat (map (\<lambda>wt. map key (rows (snd wt))) runs))"
    using m by (rule mset_eq_imp_distinct_iff)
  have i: "distinct (map key (rows h))
            \<longleftrightarrow> no_shared_time (map (\<lambda>wt. (label (fst wt), times_of (snd wt))) runs)"
    unfolding d using distinct_keys_runs [OF assms(1)] .
  have "distinct (map (\<lambda>wt. label (fst wt)) runs) \<Longrightarrow>
          no_shared_time (map (\<lambda>wt. (label (fst wt), times_of (snd wt))) runs)"
    by (rule distinct_labels_no_shared_time) (simp add: comp_def)
  with m i show ?thesis by blast
qed

theorem merge_hourly_unique_keys_witness:
  "combined parse_ns (payload_hour0, JNull, ''Austin'') (one_hour_frame ''Austin'' 0 10)
   \<and> combined parse_ns (payload_hour0, JNull, ''Berlin'') (one_hour_frame ''Berlin'' 0 10)
   \<and> distinct [''Austin'', ''Berlin'']
   \<and> \<not> isl (merge_hourly [one_hour_frame ''Austin'' 0 10, one_hour_frame ''Berlin'' 0 10])
   \<and> distinct (map key (rows (projr
        (merge_hourly [one_hour_frame ''Austin'' 0 10, one_hour_frame ''Berlin'' 0 10]))))"
proof -
  have a: "combined parse_ns (payload_hour0, JNull, ''Austin'') (one_hour_frame ''Austin'' 0 10)"
    and b: "combined parse_ns (payload_hour0, JNull, ''Berlin'') (one_hour_frame ''Berlin'' 0 10)"
    by code_simp+
  have m: "\<not> isl (merge_hourly [one_hour_frame ''Austin'' 0 10, one_hour_frame ''Berlin'' 0 10])"
    by code_simp
  then obtain h where h: "merge_hourly [one_hour_frame ''Austin'' 0 10, one_hour_frame ''Berlin'' 0 10] = Inr h"
    by (cases "merge_hourly [one_hour_frame ''Austin'' 0 10, one_hour_frame ''Berlin'' 0 10]") auto
  have l: "label (payload_hour0, JNull, ''Austin'') = ''Austin''"
    "label (payload_hour0, JNull, ''Berlin'') = ''Berlin''"
    by (simp_all add: label_def)
  have d: "distinct [''Austin'', ''Berlin'']" by simp
  have "distinct (map key (rows h))"
    using merge_hourly_unique_keys [of parse_ns
        "[((payload_hour0, JNull, ''Austin''), one_hour_frame ''Austin'' 0 10),
          ((payload_hour0, JNull, ''Berlin''), one_hour_frame ''Berlin'' 0 10)]" h]
      a b h l by simp
  then show ?thesis using a b d m h by simp
qed

theorem merge_hourly_same_label_counterexample:
  "combine_hourly parse_ns payload_hour0 JNull ''Austin'' = Inr (one_hour_frame ''Austin'' 0 10)
   \<and> combine_hourly parse_ns payload_hour1 JNull ''Austin''
       = Inr (one_hour_frame ''Austin'' 3600000000000 11)
   \<and> \<not> isl (merge_hourly [one_hour_frame ''Austin'' 0 10, one_hour_frame ''Austin'' 3600000000000 11])
   \<and> distinct (map key (rows (projr
        (merge_hourly [one_hour_frame ''Austin'' 0 10, one_hour_frame ''Austin'' 3600000000000 11]))))
   \<and> \<not> distinct [''Austin'', ''Austin'']"
  by code_simp

section \<open>Aggregates of the daily summary\<close>

lemma filter_eq_distinct: "distinct xs \<Longrightarrow> x \<in> set xs \<Longrightarrow> filter (\<lambda>y. y = x) xs = [x]"
  by (induction xs) (auto simp: filter_empty_conv)

lemma group_keys_distinct: "distinct (group_keys rs)"
  by (simp add: group_keys_def)

lemma group_keys_member:
  assumes "r \<in> set rs" "time r = Some t"
  shows "(city r, date_of t) \<in> set (group_keys rs)"
  using assms by (force simp: group_keys_def group_key_def)

lemma group_rows_group_of:
  "group_rows (rows df) (c, d) = group_of df c d"
  by (auto simp: group_rows_def group_of_def group_key_def intro!: filter_cong split: option.splits)

lemma non_null_values_of: "non_null (map (\<lambda>r. cell r f) g) = values_of g f"
  by (simp add: non_null_def values_of_def comp_def)

lemma aggregate_group_spec:
  "aggregate_group (rows df) (c, d) =
     \<lparr>d_city = c, d_date = d, d_cells = spec_daily_cells (group_of df c d)\<rparr>"
  unfolding aggregate_group_def agg_columns_eq group_rows_group_of
  by (simp add: flatten_def agg_fun_def non_null_values_of spec_daily_cells_def
      agg_mean_def agg_min_def agg_max_def agg_sum_def mean_of_def min_of_def max_of_def sum_of_def)

lemma aggregate_group_key:
  "(d_city (aggregate_group rs k), d_date (aggregate_group rs k)) = k"
  by (simp add: aggregate_group_def)

lemma groupby_agg_schema:
  assumes "hourly_schema df"
  shows "groupby_agg df =
           Inr \<lparr>d_columns = [''city'', ''date''] @ map flatten agg_columns,
                d_rows = map (aggregate_group (rows df)) (group_keys (rows df))\<rparr>"
proof -
  have m: "missing_fields (columns df) = []"
    using assms by (auto simp: hourly_schema_def missing_fields_def list_all_iff filter_empty_conv)
  have n: "\<not> (\<exists>r \<in> set (rows df). \<exists>f \<in> set (map fst agg_map). \<not> is_numeric (cell r f))"
    using assms by (auto simp: hourly_schema_def list_all_iff)
  show ?thesis
    using assms m n unfolding groupby_agg_def by (simp add: hourly_schema_def)
qed

text \<open>
  Claim C5: for every non-empty hourly table with the schema of the API and every row of
  it with a timestamp, \<^verbatim>\<open>summarize_daily\<close> returns a daily table that has exactly one
  row for the city and the UTC day of that row, and its cells are the mean, minimum and
  maximum of the temperature, the means of humidity, wind speed, cloud cover and
  pressure and the sums of precipitation, rain and snowfall over the values of the
  group that are not null.
\<close>

theorem summarize_daily_skips_null:
  assumes "\<not> df_empty df" and "hourly_schema df" and "r \<in> set (rows df)" and "time r = Some t"
  shows "\<exists>d. summarize_daily df = Inr (Daily d)
           \<and> filter (\<lambda>dr. d_city dr = city r \<and> d_date dr = date_of t) (d_rows d)
               = [\<lparr>d_city = city r, d_date = date_of t,
                   d_cells = spec_daily_cells (group_of df (city r) (date_of t))\<rparr>]"
proof -
  define d where "d = \<lparr>d_columns = [''city'', ''date''] @ map flatten agg_columns,
                d_rows = map (aggregate_group (rows df)) (group_keys (rows df))\<rparr>"
  have g: "groupby_agg df = Inr d"
    unfolding d_def using groupby_agg_schema [OF assms(2)] .
  have sd: "summarize_daily df = Inr (Daily d)"
    using assms(1) g by (simp add: summarize_daily_def and_then_def)
  have rs: "d_rows d = map (aggregate_group (rows df)) (group_keys (rows df))"
    by (simp add: d_def)
  define k where "k = (city r, date_of t)"
  have kin: "k \<in> set (group_keys (rows df))"
    unfolding k_def using group_keys_member [OF assms(3,4)] .
  have p: "(\<lambda>dr. d_city dr = city r \<and> d_date dr = date_of t) \<circ> aggregate_group (rows df)
           = (\<lambda>k'. k' = k)"
    using aggregate_group_key [of "rows df"] by (auto simp: k_def fun_eq_iff prod_eq_iff)
  have "filter (\<lambda>dr. d_city dr = city r \<and> d_date dr = date_of t) (d_rows d)
        = map (aggregate_group (rows df)) (filter (\<lambda>k'. k' = k) (group_keys (rows df)))"
    unfolding rs filter_map p ..
  also have "\<dots> = [aggregate_group (rows df) k]"
    using filter_eq_distinct [OF group_keys_distinct kin] by simp
  finally have "filter (\<lambda>dr. d_city dr = city r \<and> d_date dr = date_of t) (d_rows d)
               = [\<lparr>d_city = city r, d_date = date_of t,
                   d_cells = spec_daily_cells (group_of df (city r) (date_of t))\<rparr>]"
    unfolding k_def aggregate_group_spec .
  with sd show ?thesis by blast
qed

theorem summarize_daily_skips_null_witness:
  "\<not> df_empty example_hourly \<and> hourly_schema example_hourly
   \<and> summarize_daily example_hourly = Inr (Daily example_daily)
   \<and> map (\<lambda>r. cell r ''temperature_2m'') (rows example_hourly) = [JNum 10, JNum 20, JNull, JNum 30]
   \<and> filter (\<lambda>dr. d_city dr = ''Austin'' \<and> d_date dr = 0) (d_rows example_daily)
       = [\<lparr>d_city = ''Austin'', d_date = 0,
           d_cells = [(''temperature_2m_mean'', Some 20), (''temperature_2m_min'', Some 10),
                      (''temperature_2m_max'', Some 30), (''relative_humidity_2m_mean'', Some 50),
                      (''precipitation_sum'', Some 0), (''rain_sum'', Some 4),
                      (''snowfall_sum'', Some 0), (''windspeed_10m_mean'', Some 4),
                      (''cloudcover_mean'', Some 80), (''pressure_msl_mean'', Some 1013)]\<rparr>]"
proof -
  have s: "summarize_daily example_hourly = Inr (Daily example_daily)"
    by code_simp
  have e: "\<not> df_empty example_hourly" and h: "hourly_schema example_hourly"
    by code_simp+
  have x: "example_row 0 (JNum 10) \<in> set (rows example_hourly)"
    by (simp add: example_hourly_def)
  have t: "time (example_row 0 (JNum 10)) = Some 0"
    and c: "city (example_row 0 (JNum 10)) = ''Austin''"
    by (simp_all add: example_row_def)
  have d0: "date_of 0 = 0"
    by (simp add: date_of_def)
  have v: "map (\<lambda>r. cell r ''temperature_2m'') (rows example_hourly) = [JNum 10, JNum 20, JNull, JNum 30]"
    by code_simp
  have sp: "spec_daily_cells (group_of example_hourly ''Austin'' 0)
     = [(''temperature_2m_mean'', Some 20), (''temperature_2m_min'', Some 10),
        (''temperature_2m_max'', Some 30), (''relative_humidity_2m_mean'', Some 50),
        (''precipitation_sum'', Some 0), (''rain_sum'', Some 4),
        (''snowfall_sum'', Some 0), (''windspeed_10m_mean'', Some 4),
        (''cloudcover_mean'', Some 80), (''pressure_msl_mean'', Some 1013)]"
    by code_simp
  show ?thesis
    using summarize_daily_skips_null [OF e h x t] e h s v unfolding c d0 sp by simp
qed

end
